theory Spec2Isabelle
  imports Complex_Main "HOL-Library.AList" "HOL-Library.Char_ord" "HOL-Library.List_Lexorder"
begin

section \<open>Python strings and integers\<close>

text \<open>
  A Python \<^verbatim>\<open>str\<close> is modelled as a \<^typ>\<open>string\<close>, one \<^typ>\<open>char\<close> per code point, so the
  model covers the strings whose code points are below 256.  A Python \<^verbatim>\<open>int\<close> is an
  \<^typ>\<open>int\<close>.  A Python \<^verbatim>\<open>dict\<close> is an association list in insertion order:
  \<^const>\<open>AList.update\<close> overwrites the value of a key in place and appends a new key at the
  end, as assignment by key does, and \<^const>\<open>map_of\<close> is the lookup.
\<close>

definition dq :: char where
  "dq = CHR 0x22"

definition bslash :: char where
  "bslash = CHR 0x5C"

definition nl :: char where
  "nl = CHR 0x0A"

definition digit_char :: "nat \<Rightarrow> char" where
  "digit_char d = ''0123456789'' ! d"

text \<open>\<^verbatim>\<open>str(n)\<close> of a non-negative integer: its decimal digits, no leading zero.\<close>

fun str_of_nat :: "nat \<Rightarrow> string" where
  "str_of_nat n =
     (if n < 10 then [digit_char n] else str_of_nat (n div 10) @ [digit_char (n mod 10)])"

declare str_of_nat.simps [simp del]

text \<open>\<^verbatim>\<open>str(i)\<close>, which is also what an f-string writes for \<^verbatim>\<open>{i}\<close>.\<close>

definition str_of_int :: "int \<Rightarrow> string" where
  "str_of_int i = (if i < 0 then CHR ''-'' # str_of_nat (nat (- i)) else str_of_nat (nat i))"

text \<open>\<^verbatim>\<open>sep.join(parts)\<close>.\<close>

fun join :: "string \<Rightarrow> string list \<Rightarrow> string" where
  "join sep [] = []"
| "join sep [x] = x"
| "join sep (x # y # ys) = x @ sep @ join sep (y # ys)"

text \<open>\<^verbatim>\<open>s.replace(old, new)\<close> for a one-character \<^verbatim>\<open>old\<close>.\<close>

definition replace_char :: "char \<Rightarrow> string \<Rightarrow> string \<Rightarrow> string" where
  "replace_char old new s = concat (map (\<lambda>c. if c = old then new else [c]) s)"

text \<open>The character class \<^verbatim>\<open>[a-zA-Z0-9_]\<close> of the regular expression in \<^verbatim>\<open>sanitize_name\<close>.\<close>

definition re_word_char :: "char \<Rightarrow> bool" where
  "re_word_char c \<longleftrightarrow>
     c \<in> set ''abcdefghijklmnopqrstuvwxyzABCDEFGHIJKLMNOPQRSTUVWXYZ0123456789_''"

text \<open>
  \<^verbatim>\<open>c.isdigit()\<close>: below code point 256 the decimal digits and the three superscript
  digits (U+00B2, U+00B3, U+00B9).
\<close>

definition py_isdigit :: "char \<Rightarrow> bool" where
  "py_isdigit c \<longleftrightarrow> c \<in> set ''0123456789'' \<or> c \<in> {CHR 0xB2, CHR 0xB3, CHR 0xB9}"


section \<open>The intermediate representation read by the generators\<close>

text \<open>
  The generators read the project as nested dicts through \<^verbatim>\<open>.get(key, default)\<close>.  Each
  dict is a record of optional fields, \<^const>\<open>None\<close> for an absent key, with the value types of
  the data model (section 3 of the specification).  Where the code tests a dict for
  emptiness (\<^verbatim>\<open>if font_data:\<close>), the record says whether the dict holds further keys.
\<close>

record font_data =
  font_family :: "string option"
  font_size :: "int option"
  font_bold :: "bool option"
  font_italic :: "bool option"
  font_other :: bool

record colors_data =
  col_background :: "string option"
  col_foreground :: "string option"
  col_border :: "string option"
  col_other :: bool

record action_data =
  act_type :: "string option"
  act_target :: "string option"

record tab_info =
  tab_title :: "string option"

record properties =
  p_name :: "string option"
  p_text :: "string option"
  p_geometry :: "int list option"
  p_enabled :: "bool option"
  p_visible :: "bool option"
  p_font :: "font_data option"
  p_colors :: "colors_data option"
  p_placeholder :: "string option"
  p_readonly :: "bool option"
  p_word_wrap :: "bool option"
  p_checked :: "bool option"
  p_group :: "string option"
  p_items :: "string list option"
  p_minimum :: "int option"
  p_maximum :: "int option"
  p_value :: "int option"
  p_orientation :: "string option"
  p_tab_data :: "tab_info list option"
  p_action :: "action_data option"

record widget =
  w_id :: "string option"
  w_type :: "string option"
  w_properties :: "properties option"

record window_properties =
  wp_title :: "string option"
  wp_geometry :: "int list option"
  wp_colors :: "colors_data option"

record main_window =
  mw_properties :: "window_properties option"

record project =
  pr_name :: "string option"
  pr_main_window :: "main_window option"
  pr_widgets :: "widget list option"

text \<open>\<^verbatim>\<open>{}\<close> read as a properties dict: every key is absent.\<close>

definition no_properties :: properties where
  "no_properties = \<lparr>p_name = None, p_text = None, p_geometry = None, p_enabled = None,
     p_visible = None, p_font = None, p_colors = None, p_placeholder = None,
     p_readonly = None, p_word_wrap = None, p_checked = None, p_group = None,
     p_items = None, p_minimum = None, p_maximum = None, p_value = None,
     p_orientation = None, p_tab_data = None, p_action = None\<rparr>"

text \<open>\<^verbatim>\<open>widget.get("properties", {})\<close>, \<^verbatim>\<open>widget.get("id", "")\<close> and \<^verbatim>\<open>widget.get("type", "")\<close>.\<close>

definition widget_properties :: "widget \<Rightarrow> properties" where
  "widget_properties w = (case w_properties w of None \<Rightarrow> no_properties | Some p \<Rightarrow> p)"

definition widget_id :: "widget \<Rightarrow> string" where
  "widget_id w = (case w_id w of None \<Rightarrow> [] | Some i \<Rightarrow> i)"

definition widget_type :: "widget \<Rightarrow> string" where
  "widget_type w = (case w_type w of None \<Rightarrow> [] | Some t \<Rightarrow> t)"

text \<open>\<^verbatim>\<open>properties.get("name", "widget")\<close>.\<close>

definition declared_name :: "properties \<Rightarrow> string" where
  "declared_name p = (case p_name p of None \<Rightarrow> ''widget'' | Some n \<Rightarrow> n)"


section \<open>Identifier resolution (\<^verbatim>\<open>generators/base_generator.py\<close>)\<close>

text \<open>
  \<^verbatim>\<open>BaseGenerator.sanitize_name\<close>: \<^verbatim>\<open>re.sub(r'[^a-zA-Z0-9_]', '_', name)\<close>, an underscore
  in front when the first character of the result is a digit, and \<^verbatim>\<open>"widget"\<close> for an
  empty result.
\<close>

definition sanitize_name :: "string \<Rightarrow> string" where
  "sanitize_name name =
     (let sanitized = map (\<lambda>c. if re_word_char c then c else CHR ''_'') name;
          sanitized = (if sanitized \<noteq> [] \<and> py_isdigit (hd sanitized)
                       then ''_'' @ sanitized else sanitized)
      in if sanitized = [] then ''widget'' else sanitized)"

text \<open>
  \<^verbatim>\<open>BaseGenerator.resolve_variable_names\<close>.  The loop carries the two dicts
  \<^verbatim>\<open>name_counts\<close> and \<^verbatim>\<open>resolved_names\<close>; \<^verbatim>\<open>resolve_loop\<close> is the loop from a given pair of
  them.
\<close>

fun resolve_loop ::
  "widget list \<Rightarrow> (string \<times> int) list \<Rightarrow> (string \<times> string) list \<Rightarrow> (string \<times> string) list"
where
  "resolve_loop [] name_counts resolved_names = resolved_names"
| "resolve_loop (w # ws) name_counts resolved_names =
     (let base_name = sanitize_name (declared_name (widget_properties w))
      in case map_of name_counts base_name of
           Some c \<Rightarrow>
             resolve_loop ws (AList.update base_name (c + 1) name_counts)
               (AList.update (widget_id w) (base_name @ ''_'' @ str_of_int (c + 1)) resolved_names)
         | None \<Rightarrow>
             resolve_loop ws (AList.update base_name 0 name_counts)
               (AList.update (widget_id w) base_name resolved_names))"

definition resolve_variable_names :: "widget list \<Rightarrow> (string \<times> string) list" where
  "resolve_variable_names widgets = resolve_loop widgets [] []"

text \<open>A widget dict with the two keys that identifier resolution reads.\<close>

definition named_widget :: "string \<Rightarrow> string \<Rightarrow> widget" where
  "named_widget i n =
     \<lparr>w_id = Some i, w_type = None, w_properties = Some (no_properties\<lparr>p_name := Some n\<rparr>)\<rparr>"


section \<open>The identifier resolution of the specification\<close>

text \<open>
  Section 4.3 of the specification, in its own words: every character outside
  \<^verbatim>\<open>[A-Za-z0-9_]\<close> becomes an underscore, an underscore is put in front when the first
  character is a digit, and an empty result becomes \<^verbatim>\<open>widget\<close>.
\<close>

definition spec_sanitize :: "string \<Rightarrow> string" where
  "spec_sanitize name =
     (let replaced = map (\<lambda>c. if re_word_char c then c else CHR ''_'') name;
          prefixed = (case replaced of [] \<Rightarrow> []
                      | c # cs \<Rightarrow> if c \<in> set ''0123456789'' then CHR ''_'' # replaced
                                  else replaced)
      in if prefixed = [] then ''widget'' else prefixed)"

text \<open>
  The name of the \<open>i\<close>-th widget, given the sanitized base names in project order: the
  first occurrence of a base keeps it, and the occurrence that has \<open>k\<close> earlier ones gets
  \<^verbatim>\<open>base_k\<close>.
\<close>

definition spec_name_at :: "string list \<Rightarrow> nat \<Rightarrow> string" where
  "spec_name_at bases i =
     (let base = bases ! i; k = count_list (take i bases) base
      in if k = 0 then base else base @ ''_'' @ str_of_nat k)"

text \<open>The same numbering as a list, from the bases \<open>seen\<close> before the first widget.\<close>

fun names_from :: "string list \<Rightarrow> string list \<Rightarrow> string list" where
  "names_from seen [] = []"
| "names_from seen (b # bs) =
     (if count_list seen b = 0 then b else b @ ''_'' @ str_of_nat (count_list seen b))
       # names_from (seen @ [b]) bs"

text \<open>
  The invariant of the loop of \<^verbatim>\<open>resolve_variable_names\<close>: \<^verbatim>\<open>name_counts\<close> holds, for
  every base seen so far, the number of its occurrences minus one.
\<close>

definition counts_of :: "string list \<Rightarrow> (string \<times> int) list \<Rightarrow> bool" where
  "counts_of seen name_counts \<longleftrightarrow>
     (\<forall>b. map_of name_counts b =
        (if b \<in> set seen then Some (int (count_list seen b) - 1) else None))"

definition widget_base :: "widget \<Rightarrow> string" where
  "widget_base w = sanitize_name (declared_name (widget_properties w))"


section \<open>Python values held by the state manager\<close>

text \<open>
  The state manager and the project manager hold the project as nested Python values, as
  \<^verbatim>\<open>json.load\<close> builds them: \<^verbatim>\<open>None\<close>, a bool, an int, a float, a string, a list or a
  dict.  A float is carried as the real it denotes (the floats \<^verbatim>\<open>inf\<close> and \<^verbatim>\<open>nan\<close>,
  which denote none, are not covered).  A dict is the list of its entries in insertion
  order, with keys that are pairwise different for Python.  An exception is a value of
  \<open>py_error\<close>; a method that mutates an object returns its result, or the exception it
  raised, together with the state it leaves behind.
\<close>

datatype pyval =
    PNone
  | PBool bool
  | PInt int
  | PFloat real
  | PStr string
  | PList "pyval list"
  | PDict "(pyval \<times> pyval) list"

type_synonym pydict = "(pyval \<times> pyval) list"

datatype py_error = KeyError | TypeError | ValueError | AttributeError | IndexError

text \<open>
  The keys of a dict.  A list and a dict cannot be keys.  Two keys are the same key when
  \<^verbatim>\<open>==\<close> holds for them: a bool, an int and a float are compared by their value
  (\<^verbatim>\<open>True == 1 == 1.0\<close>), a string equals only the same string and \<^verbatim>\<open>None\<close> only itself.
  \<open>key_of\<close> maps a key to the representative of its class.
\<close>

fun hashable :: "pyval \<Rightarrow> bool" where
  "hashable (PList l) = False"
| "hashable (PDict d) = False"
| "hashable _ = True"

fun key_of :: "pyval \<Rightarrow> pyval" where
  "key_of (PBool b) = PInt (if b then 1 else 0)"
| "key_of (PFloat r) = (if r = of_int \<lfloor>r\<rfloor> then PInt \<lfloor>r\<rfloor> else PFloat r)"
| "key_of k = k"

text \<open>
  \<^verbatim>\<open>d[k] = v\<close> on a dict: the entry of an equal key keeps its place and its key and takes
  the value, a new key is appended.  \<^verbatim>\<open>d.update(other)\<close> for two dicts assigns the entries
  of \<^verbatim>\<open>other\<close> in their order, each value whole.
\<close>

fun py_dict_set :: "pyval \<Rightarrow> 'v \<Rightarrow> (pyval \<times> 'v) list \<Rightarrow> (pyval \<times> 'v) list" where
  "py_dict_set k v [] = [(k, v)]"
| "py_dict_set k v ((k', v') # d) =
     (if key_of k' = key_of k then (k', v) # d else (k', v') # py_dict_set k v d)"

fun py_dict_update :: "(pyval \<times> 'v) list \<Rightarrow> (pyval \<times> 'v) list \<Rightarrow> (pyval \<times> 'v) list" where
  "py_dict_update d [] = d"
| "py_dict_update d ((k, v) # other) = py_dict_update (py_dict_set k v d) other"

text \<open>
  A string key equals no key of another type.  So where the key is a string \<open>k\<close>, the
  lookup \<^verbatim>\<open>d[k]\<close> is \<^const>\<open>map_of\<close> at \<open>PStr k\<close>, the assignment is \<^const>\<open>AList.update\<close>
  (which is \<open>py_dict_set\<close> there), the deletion is \<^const>\<open>AList.delete\<close> and \<^verbatim>\<open>k in d\<close> is
  \<open>has_key\<close>.  The dicts of strings that the generators build are association lists as
  well, with \<open>dict_update\<close> for \<^verbatim>\<open>update\<close>.
\<close>

definition has_key :: "'k \<Rightarrow> ('k \<times> 'v) list \<Rightarrow> bool" where
  "has_key k d \<longleftrightarrow> k \<in> set (map fst d)"

fun dict_update :: "('k \<times> 'v) list \<Rightarrow> ('k \<times> 'v) list \<Rightarrow> ('k \<times> 'v) list" where
  "dict_update d [] = d"
| "dict_update d ((k, v) # other) = dict_update (AList.update k v d) other"

text \<open>\<^verbatim>\<open>s.startswith(p)\<close> and \<^verbatim>\<open>p in s\<close> for two strings.\<close>

definition startswith :: "string \<Rightarrow> string \<Rightarrow> bool" where
  "startswith s p \<longleftrightarrow> take (length p) s = p"

fun py_substr :: "string \<Rightarrow> string \<Rightarrow> bool" where
  "py_substr p [] = (p = [])"
| "py_substr p (c # cs) = (startswith (c # cs) p \<or> py_substr p cs)"

text \<open>
  \<^verbatim>\<open>key in x\<close> for a string \<^verbatim>\<open>key\<close> and any value: a key of a dict, an element of a
  list, a substring of a string; the other values are not iterable.
\<close>

fun py_in :: "string \<Rightarrow> pyval \<Rightarrow> py_error + bool" where
  "py_in key (PDict d) = Inr (has_key (PStr key) d)"
| "py_in key (PList l) = Inr (PStr key \<in> set l)"
| "py_in key (PStr s) = Inr (py_substr key s)"
| "py_in key _ = Inl TypeError"

text \<open>\<^verbatim>\<open>x[key]\<close> for a string \<^verbatim>\<open>key\<close>: only a dict is indexed by a string.\<close>

fun py_getitem :: "pyval \<Rightarrow> string \<Rightarrow> py_error + pyval" where
  "py_getitem (PDict d) key =
     (case map_of d (PStr key) of None \<Rightarrow> Inl KeyError | Some v \<Rightarrow> Inr v)"
| "py_getitem _ key = Inl TypeError"

text \<open>
  \<^verbatim>\<open>x[k] = v\<close> for any key.  A dict takes every hashable key.  A list takes an int or a
  bool as index, counted from the end when negative, and the index has to be in range.
  Nothing else supports the assignment.
\<close>

definition py_list_set :: "pyval list \<Rightarrow> pyval \<Rightarrow> pyval \<Rightarrow> py_error + pyval list" where
  "py_list_set l k v =
     (case (case k of PInt i \<Rightarrow> Some i | PBool b \<Rightarrow> Some (if b then 1 else 0) | _ \<Rightarrow> None) of
        None \<Rightarrow> Inl TypeError
      | Some i \<Rightarrow>
          (let j = (if i < 0 then i + int (length l) else i)
           in if 0 \<le> j \<and> j < int (length l) then Inr (l[nat j := v]) else Inl IndexError))"

fun py_setitem :: "pyval \<Rightarrow> pyval \<Rightarrow> pyval \<Rightarrow> py_error + pyval" where
  "py_setitem (PDict d) k v =
     (if hashable k then Inr (PDict (py_dict_set k v d)) else Inl TypeError)"
| "py_setitem (PList l) k v =
     (case py_list_set l k v of Inl e \<Rightarrow> Inl e | Inr l' \<Rightarrow> Inr (PList l'))"
| "py_setitem _ k v = Inl TypeError"

text \<open>\<^verbatim>\<open>x.copy()\<close>: a dict and a list have the method.\<close>

fun py_copy :: "pyval \<Rightarrow> py_error + pyval" where
  "py_copy (PDict d) = Inr (PDict d)"
| "py_copy (PList l) = Inr (PList l)"
| "py_copy _ = Inl AttributeError"

text \<open>What a \<^verbatim>\<open>for\<close> statement iterates over: elements, keys, characters.\<close>

fun py_iter :: "pyval \<Rightarrow> py_error + pyval list" where
  "py_iter (PList l) = Inr l"
| "py_iter (PDict d) = Inr (map fst d)"
| "py_iter (PStr s) = Inr (map (\<lambda>c. PStr [c]) s)"
| "py_iter _ = Inl TypeError"

text \<open>
  \<^verbatim>\<open>d.update(other)\<close> for a dict and any value.  A dict is merged in.  Any other value is
  iterated over as a sequence of key-value pairs: each element has to be iterable
  (\<^verbatim>\<open>TypeError\<close>) with exactly two elements (\<^verbatim>\<open>ValueError\<close>), the first of them hashable
  (\<^verbatim>\<open>TypeError\<close>).  The pairs are assigned one by one, so the pairs before a failing one
  stay assigned: the result is the exception, if any, and the dict as it is left.
\<close>

fun update_pairs :: "pydict \<Rightarrow> pyval list \<Rightarrow> py_error option \<times> pydict" where
  "update_pairs d [] = (None, d)"
| "update_pairs d (x # xs) =
     (case py_iter x of
        Inl e \<Rightarrow> (Some TypeError, d)
      | Inr [k, v] \<Rightarrow> if hashable k then update_pairs (py_dict_set k v d) xs else (Some TypeError, d)
      | Inr _ \<Rightarrow> (Some ValueError, d))"

definition dict_update_any :: "pydict \<Rightarrow> pyval \<Rightarrow> py_error option \<times> pydict" where
  "dict_update_any d other =
     (case other of
        PDict other_dict \<Rightarrow> (None, py_dict_update d other_dict)
      | _ \<Rightarrow> (case py_iter other of Inl e \<Rightarrow> (Some TypeError, d) | Inr xs \<Rightarrow> update_pairs d xs))"

text \<open>
  \<^verbatim>\<open>x.update(other)\<close> for any two values: only a dict has the method.  The result is the
  exception, if any, and the value of \<^verbatim>\<open>x\<close> afterwards.
\<close>

fun py_update :: "pyval \<Rightarrow> pyval \<Rightarrow> py_error option \<times> pyval" where
  "py_update (PDict d) other = (case dict_update_any d other of (err, d') \<Rightarrow> (err, PDict d'))"
| "py_update x other = (Some AttributeError, x)"

text \<open>\<^verbatim>\<open>s.lower()\<close>, on the code points below 256.\<close>

definition py_lower_char :: "char \<Rightarrow> char" where
  "py_lower_char c =
     (let n = of_char c :: nat
      in if (65 \<le> n \<and> n \<le> 90) \<or> (192 \<le> n \<and> n \<le> 222 \<and> n \<noteq> 215) then char_of (n + 32) else c)"

definition py_lower :: "string \<Rightarrow> string" where
  "py_lower s = map py_lower_char s"

text \<open>
  \<^verbatim>\<open>int(s)\<close> for a string, \<^const>\<open>None\<close> for the \<^verbatim>\<open>ValueError\<close>: white space around
  the number is dropped (the six ASCII white-space characters, U+0085 and U+00A0), one
  sign may come first, and the digits may be separated by single underscores.
\<close>

definition int_space :: "char \<Rightarrow> bool" where
  "int_space c \<longleftrightarrow> c \<in> {CHR 0x09, CHR 0x0A, CHR 0x0B, CHR 0x0C, CHR 0x0D, CHR 0x20, CHR 0x85, CHR 0xA0}"

definition is_dec :: "char \<Rightarrow> bool" where
  "is_dec c \<longleftrightarrow> c \<in> set ''0123456789''"

definition dec_val :: "char \<Rightarrow> nat" where
  "dec_val c = of_char c - 48"

fun py_digits_from :: "nat \<Rightarrow> string \<Rightarrow> nat option" where
  "py_digits_from acc [] = Some acc"
| "py_digits_from acc (c # cs) =
     (if is_dec c then py_digits_from (10 * acc + dec_val c) cs
      else if c = CHR ''_'' then
        (case cs of
           [] \<Rightarrow> None
         | d # ds \<Rightarrow> if is_dec d then py_digits_from (10 * acc + dec_val d) ds else None)
      else None)"

definition py_digits :: "string \<Rightarrow> nat option" where
  "py_digits s =
     (case s of [] \<Rightarrow> None | c # cs \<Rightarrow> if is_dec c then py_digits_from (dec_val c) cs else None)"

definition py_int :: "string \<Rightarrow> int option" where
  "py_int s =
     (let t = rev (dropWhile int_space (rev (dropWhile int_space s)))
      in case t of
           [] \<Rightarrow> None
         | c # cs \<Rightarrow>
             if c = CHR ''-'' then map_option (\<lambda>n. - int n) (py_digits cs)
             else if c = CHR ''+'' then map_option int (py_digits cs)
             else map_option int (py_digits t))"

text \<open>\<^verbatim>\<open>s.split("_")[-1]\<close>: what follows the last underscore, or all of \<^verbatim>\<open>s\<close>.\<close>

definition last_segment :: "string \<Rightarrow> string" where
  "last_segment s = rev (takeWhile (\<lambda>c. c \<noteq> CHR ''_'') (rev s))"

text \<open>\<^verbatim>\<open>max(ns)\<close> of a list: a \<^verbatim>\<open>ValueError\<close> when it is empty.\<close>

definition py_max :: "int list \<Rightarrow> py_error + int" where
  "py_max ns = (case ns of [] \<Rightarrow> Inl ValueError | n # ms \<Rightarrow> Inr (fold max ms n))"


section \<open>The state manager (\<^verbatim>\<open>core/state_manager.py\<close>)\<close>

text \<open>
  \<^verbatim>\<open>StateManager\<close> as a record of its attributes.  The Qt signals it emits and the log
  lines it writes reach listeners that only read the state; they are left out, except
  where formatting a log line raises.  A snapshot on the undo stack is the dict that
  \<^verbatim>\<open>get_current_state\<close> builds from deep copies.

  The arguments of the methods are values: trees that the caller has built for the call
  and keeps no reference to, as \<^verbatim>\<open>open_project\<close> passes the result of \<^verbatim>\<open>json.load\<close>.
  Inside the state one kind of object is reachable on two paths.  \<^verbatim>\<open>load_project_data\<close>
  keeps the list \<^verbatim>\<open>project_data["widgets"]\<close> in \<open>project_data\<close> and stores the elements of
  that list themselves in \<open>widgets\<close>, so what \<^verbatim>\<open>update_widget\<close> writes into a loaded widget
  shows in \<open>project_data\<close> too.  \<open>shared_widgets\<close> records this: for a key of \<open>widgets\<close>
  whose widget is the object at a position of that list, the position.
\<close>

record snapshot =
  snap_project_data :: pyval
  snap_widgets :: "(pyval \<times> pydict) list"
  snap_widget_counter :: int
  snap_selected_widget_id :: "string option"
  snap_canvas_settings :: pydict
  snap_layer_config :: pydict

record state_manager =
  project_data :: pyval
  project_path :: "string option"
  target_framework :: pyval
  widgets :: "(pyval \<times> pydict) list"
  shared_widgets :: "(pyval \<times> nat) list"
  widget_counter :: int
  selected_widget_id :: "string option"
  undo_stack :: "snapshot list"
  redo_stack :: "snapshot list"
  unsaved_changes :: bool
  canvas_settings :: pydict
  layer_config :: pydict

definition max_undo_levels :: nat where
  "max_undo_levels = 50"

definition get_current_state :: "state_manager \<Rightarrow> snapshot" where
  "get_current_state s =
     \<lparr>snap_project_data = project_data s, snap_widgets = widgets s,
      snap_widget_counter = widget_counter s, snap_selected_widget_id = selected_widget_id s,
      snap_canvas_settings = canvas_settings s, snap_layer_config = layer_config s\<rparr>"

text \<open>\<^verbatim>\<open>undo_stack.append(state)\<close>, then \<^verbatim>\<open>pop(0)\<close> when the stack is longer than the limit.\<close>

definition push_undo :: "snapshot \<Rightarrow> snapshot list \<Rightarrow> snapshot list" where
  "push_undo st stack =
     (let stack = stack @ [st] in if length stack > max_undo_levels then tl stack else stack)"

definition save_initial_state :: "state_manager \<Rightarrow> state_manager" where
  "save_initial_state s = s\<lparr>undo_stack := push_undo (get_current_state s) (undo_stack s)\<rparr>"

definition save_state :: "state_manager \<Rightarrow> state_manager" where
  "save_state s =
     s\<lparr>undo_stack := push_undo (get_current_state s) (undo_stack s),
       redo_stack := [], unsaved_changes := True\<rparr>"

definition new_project :: "state_manager \<Rightarrow> state_manager" where
  "new_project s =
     save_initial_state
       (s\<lparr>project_data := PDict
            [(PStr ''name'', PStr ''New Project''),
             (PStr ''framework'', target_framework s),
             (PStr ''version'', PStr ''1.0''),
             (PStr ''main_window'', PDict
                [(PStr ''id'', PStr ''main_window''),
                 (PStr ''type'', PStr ''MainWindow''),
                 (PStr ''properties'', PDict
                    [(PStr ''title'', PStr ''My Application''),
                     (PStr ''geometry'', PList [PInt 100, PInt 100, PInt 800, PInt 600]),
                     (PStr ''resizable'', PBool True),
                     (PStr ''colors'', PDict
                        [(PStr ''background'', PStr ''#F0F0F0''),
                         (PStr ''text'', PStr ''#000000'')])])]),
             (PStr ''widgets'', PDict []),
             (PStr ''canvas_settings'', PDict (canvas_settings s)),
             (PStr ''layer_config'', PDict (layer_config s))],
          widgets := [], shared_widgets := [], widget_counter := 0, selected_widget_id := None,
          project_path := None, unsaved_changes := False,
          undo_stack := [], redo_stack := []\<rparr>)"

text \<open>The object that \<^verbatim>\<open>StateManager()\<close> constructs: the attributes, then \<^verbatim>\<open>new_project\<close>.\<close>

definition initial_state_manager :: state_manager where
  "initial_state_manager =
     new_project
       \<lparr>project_data = PDict [], project_path = None, target_framework = PStr ''PyQt6'',
        widgets = [], shared_widgets = [], widget_counter = 0, selected_widget_id = None,
        undo_stack = [], redo_stack = [], unsaved_changes = False,
        canvas_settings =
          [(PStr ''grid_size'', PInt 20), (PStr ''grid_visible'', PBool True),
           (PStr ''snap_enabled'', PBool True), (PStr ''zoom_level'', PFloat 1)],
        layer_config =
          [(PStr ''total_layers'', PInt 5),
           (PStr ''layer_names'', PList [PStr ''Background'', PStr ''Content'', PStr ''Controls'',
              PStr ''Overlays'', PStr ''Debug''])]\<rparr>"

text \<open>
  \<^verbatim>\<open>add_widget\<close>.  \<^verbatim>\<open>default_property key dflt properties\<close> is one of the three
  \<^verbatim>\<open>if key not in properties: properties[key] = ...\<close>; the default of \<^verbatim>\<open>name\<close> reads
  \<^verbatim>\<open>widget_data['type'].lower()\<close>, which raises when the key is absent or its value is not
  a string.  The last log line reads \<^verbatim>\<open>widget_data['type']\<close> again, after the widget is
  stored.  The widget stored is a new object, so its key is shared with no loaded widget
  afterwards.
\<close>

definition default_property ::
  "string \<Rightarrow> py_error + pyval \<Rightarrow> pyval \<Rightarrow> py_error + pyval" where
  "default_property key dflt properties =
     (case py_in key properties of
        Inl e \<Rightarrow> Inl e
      | Inr True \<Rightarrow> Inr properties
      | Inr False \<Rightarrow>
          (case dflt of Inl e \<Rightarrow> Inl e | Inr v \<Rightarrow> py_setitem properties (PStr key) v))"

definition default_name :: "pydict \<Rightarrow> int \<Rightarrow> py_error + pyval" where
  "default_name widget_data counter =
     (case map_of widget_data (PStr ''type'') of
        None \<Rightarrow> Inl KeyError
      | Some (PStr t) \<Rightarrow> Inr (PStr (py_lower t @ ''_'' @ str_of_int counter))
      | Some _ \<Rightarrow> Inl AttributeError)"

definition default_properties :: "pydict \<Rightarrow> int \<Rightarrow> pyval \<Rightarrow> py_error + pyval" where
  "default_properties widget_data counter properties =
     (case default_property ''name'' (default_name widget_data counter) properties of
        Inl e \<Rightarrow> Inl e
      | Inr p1 \<Rightarrow>
          (case default_property ''geometry''
                  (Inr (PList [PInt 100, PInt 100, PInt 200, PInt 100])) p1 of
             Inl e \<Rightarrow> Inl e
           | Inr p2 \<Rightarrow> default_property ''layer'' (Inr (PInt 2)) p2))"

definition add_widget :: "pydict \<Rightarrow> state_manager \<Rightarrow> (py_error + string) \<times> state_manager" where
  "add_widget widget_data s =
     (let s = save_state s;
          s = s\<lparr>widget_counter := widget_counter s + 1\<rparr>;
          new_id = ''widget_'' @ str_of_int (widget_counter s);
          widget_data = AList.update (PStr ''id'') (PStr new_id) widget_data;
          properties =
            (case map_of widget_data (PStr ''properties'') of None \<Rightarrow> PDict [] | Some p \<Rightarrow> p);
          widget_data = AList.update (PStr ''properties'') properties widget_data
      in case default_properties widget_data (widget_counter s) properties of
           Inl e \<Rightarrow> (Inl e, s)
         | Inr properties \<Rightarrow>
             (let widget_data = AList.update (PStr ''properties'') properties widget_data;
                  s = s\<lparr>widgets := AList.update (PStr new_id) widget_data (widgets s),
                        shared_widgets := AList.delete (PStr new_id) (shared_widgets s),
                        selected_widget_id := Some new_id\<rparr>
              in if has_key (PStr ''type'') widget_data then (Inr new_id, s)
                 else (Inl KeyError, s)))"

text \<open>
  \<^verbatim>\<open>remove_widget\<close>.  Its log line reads \<^verbatim>\<open>widget_data['type']\<close> of the removed widget,
  after the removal.
\<close>

definition remove_widget :: "string \<Rightarrow> state_manager \<Rightarrow> (py_error + bool) \<times> state_manager" where
  "remove_widget wid s =
     (case map_of (widgets s) (PStr wid) of
        Some widget_data \<Rightarrow>
          (let s = save_state s;
               s = s\<lparr>widgets := AList.delete (PStr wid) (widgets s),
                     shared_widgets := AList.delete (PStr wid) (shared_widgets s)\<rparr>;
               s = (if selected_widget_id s = Some wid then s\<lparr>selected_widget_id := None\<rparr> else s)
           in if has_key (PStr ''type'') widget_data then (Inr True, s) else (Inl KeyError, s))
      | None \<Rightarrow> (Inr False, s))"

text \<open>
  \<^verbatim>\<open>update_widget\<close> and \<^verbatim>\<open>update_main_window\<close>.  The \<^verbatim>\<open>properties\<close> of the update go
  through \<^verbatim>\<open>dict.update\<close> into the stored properties; every other key of the update is
  assigned.  The widget is changed in place: \<open>store_widget\<close> puts its new value under its
  key and, for a loaded widget, at its position in \<^verbatim>\<open>project_data["widgets"]\<close>.
\<close>

definition other_fields :: "pydict \<Rightarrow> pydict" where
  "other_fields updates = filter (\<lambda>kv. fst kv \<noteq> PStr ''properties'') updates"

definition write_shared :: "nat option \<Rightarrow> pydict \<Rightarrow> pyval \<Rightarrow> pyval" where
  "write_shared position w pd =
     (case position of
        None \<Rightarrow> pd
      | Some i \<Rightarrow>
          (case pd of
             PDict d \<Rightarrow>
               (case map_of d (PStr ''widgets'') of
                  Some (PList l) \<Rightarrow> PDict (AList.update (PStr ''widgets'') (PList (l[i := PDict w])) d)
                | _ \<Rightarrow> pd)
           | _ \<Rightarrow> pd))"

definition store_widget :: "string \<Rightarrow> pydict \<Rightarrow> state_manager \<Rightarrow> state_manager" where
  "store_widget wid w s =
     s\<lparr>widgets := AList.update (PStr wid) w (widgets s),
       project_data := write_shared (map_of (shared_widgets s) (PStr wid)) w (project_data s)\<rparr>"

definition update_widget ::
  "string \<Rightarrow> pydict \<Rightarrow> state_manager \<Rightarrow> (py_error + unit) \<times> state_manager" where
  "update_widget wid updates s =
     (case map_of (widgets s) (PStr wid) of
        None \<Rightarrow> (Inr (), s)
      | Some w \<Rightarrow>
          (case map_of updates (PStr ''properties'') of
             None \<Rightarrow> (Inr (), store_widget wid (py_dict_update w (other_fields updates)) s)
           | Some new \<Rightarrow>
               (let cur = (case map_of w (PStr ''properties'') of None \<Rightarrow> PDict [] | Some p \<Rightarrow> p)
                in case py_update cur new of
                     (Some e, p) \<Rightarrow>
                       (Inl e, store_widget wid (AList.update (PStr ''properties'') p w) s)
                   | (None, p) \<Rightarrow>
                       (Inr (),
                        store_widget wid
                          (py_dict_update (AList.update (PStr ''properties'') p w)
                             (other_fields updates)) s))))"

text \<open>
  \<^verbatim>\<open>update_main_window\<close>.  \<open>set_fields\<close> is its loop over the other keys of the update
  and \<open>changed_at\<close> is a value after the object it holds under a string key has been
  changed in place.  \<open>update_window_value\<close> is what the method does to the value under
  \<^verbatim>\<open>main_window\<close>: the exception, if any, and the value as it is left.
\<close>

fun set_fields :: "pyval \<Rightarrow> pydict \<Rightarrow> py_error option \<times> pyval" where
  "set_fields x [] = (None, x)"
| "set_fields x ((k, v) # rest) =
     (case py_setitem x k v of Inl e \<Rightarrow> (Some e, x) | Inr y \<Rightarrow> set_fields y rest)"

fun changed_at :: "pyval \<Rightarrow> string \<Rightarrow> pyval \<Rightarrow> pyval" where
  "changed_at (PDict d) key v = PDict (AList.update (PStr key) v d)"
| "changed_at x key v = x"

definition update_window_value :: "pyval \<Rightarrow> pydict \<Rightarrow> py_error option \<times> pyval" where
  "update_window_value mw updates =
     (case map_of updates (PStr ''properties'') of
        None \<Rightarrow> set_fields mw (other_fields updates)
      | Some new \<Rightarrow>
          (case py_in ''properties'' mw of
             Inl e \<Rightarrow> (Some e, mw)
           | Inr present \<Rightarrow>
               (case (if present then Inr mw
                      else py_setitem mw (PStr ''properties'') (PDict [])) of
                  Inl e \<Rightarrow> (Some e, mw)
                | Inr mw1 \<Rightarrow>
                    (case py_getitem mw1 ''properties'' of
                       Inl e \<Rightarrow> (Some e, mw1)
                     | Inr cur \<Rightarrow>
                         (case py_update cur new of
                            (Some e, p) \<Rightarrow> (Some e, changed_at mw1 ''properties'' p)
                          | (None, p) \<Rightarrow>
                              set_fields (changed_at mw1 ''properties'' p)
                                (other_fields updates))))))"

text \<open>
  \<^verbatim>\<open>main_window\<close> is created when \<^verbatim>\<open>project_data\<close> does not hold it.  The value under
  it is read when the update has an entry to apply, and changed in place.
\<close>

definition update_main_window ::
  "pydict \<Rightarrow> state_manager \<Rightarrow> (py_error + unit) \<times> state_manager" where
  "update_main_window updates s =
     (case py_in ''main_window'' (project_data s) of
        Inl e \<Rightarrow> (Inl e, s)
      | Inr present \<Rightarrow>
          (case (if present then Inr (project_data s)
                 else py_setitem (project_data s) (PStr ''main_window'') (PDict [])) of
             Inl e \<Rightarrow> (Inl e, s)
           | Inr pd \<Rightarrow>
               if updates = [] then (Inr (), s\<lparr>project_data := pd\<rparr>)
               else
                 (case py_getitem pd ''main_window'' of
                    Inl e \<Rightarrow> (Inl e, s\<lparr>project_data := pd\<rparr>)
                  | Inr mw \<Rightarrow>
                      (case update_window_value mw updates of
                         (err, mw') \<Rightarrow>
                           (case err of Some e \<Rightarrow> Inl e | None \<Rightarrow> Inr (),
                            s\<lparr>project_data := changed_at pd ''main_window'' mw'\<rparr>)))))"

text \<open>
  \<^verbatim>\<open>get_project_data\<close>: the project dict with the widgets as a list.  Unpacking
  \<^verbatim>\<open>**self.project_data\<close> raises when \<open>project_data\<close> is not a dict.
\<close>

definition get_project_data :: "state_manager \<Rightarrow> py_error + pydict" where
  "get_project_data s =
     (case project_data s of
        PDict d \<Rightarrow>
          Inr (py_dict_update d
                 [(PStr ''widgets'', PList (map (\<lambda>kv. PDict (snd kv)) (widgets s))),
                  (PStr ''canvas_settings'', PDict (canvas_settings s)),
                  (PStr ''layer_config'', PDict (layer_config s))])
      | _ \<Rightarrow> Inl TypeError)"



text \<open>
  \<^verbatim>\<open>load_project_data\<close>.  The loop over \<^verbatim>\<open>project_data["widgets"]\<close> stores every element
  that has an \<^verbatim>\<open>id\<close> under that id.  \<open>keyed_widget\<close> is one pass of the loop body: nothing
  to store, a key and the widget dict to store under it, or the exception.
  \<open>load_widgets\<close> runs the loop from a position of the list on and returns the exception,
  if any, the dict built so far and the positions of the widgets in it.
\<close>

fun keyed_widget :: "pyval \<Rightarrow> py_error + (pyval \<times> pydict) option" where
  "keyed_widget (PDict d) =
     (case map_of d (PStr ''id'') of
        None \<Rightarrow> Inr None
      | Some k \<Rightarrow> if hashable k then Inr (Some (k, d)) else Inl TypeError)"
| "keyed_widget (PList l) = (if PStr ''id'' \<in> set l then Inl TypeError else Inr None)"
| "keyed_widget (PStr s) = (if py_substr ''id'' s then Inl TypeError else Inr None)"
| "keyed_widget _ = Inl TypeError"

fun load_widgets ::
  "pyval list \<Rightarrow> nat \<Rightarrow> (pyval \<times> pydict) list \<Rightarrow> (pyval \<times> nat) list
     \<Rightarrow> py_error option \<times> (pyval \<times> pydict) list \<times> (pyval \<times> nat) list" where
  "load_widgets [] i ws shared = (None, ws, shared)"
| "load_widgets (x # xs) i ws shared =
     (case keyed_widget x of
        Inl e \<Rightarrow> (Some e, ws, shared)
      | Inr None \<Rightarrow> load_widgets xs (Suc i) ws shared
      | Inr (Some (k, d)) \<Rightarrow>
          load_widgets xs (Suc i) (py_dict_set k d ws) (py_dict_set k i shared))"

text \<open>
  The list comprehension
  \<^verbatim>\<open>[int(w_id.split("_")[-1]) for w_id in self.widgets.keys() if w_id.startswith("widget_")]\<close>
  over the keys: the first key that is not a string or whose last segment is not a number
  raises.
\<close>

fun id_numbers :: "pyval list \<Rightarrow> py_error + int list" where
  "id_numbers [] = Inr []"
| "id_numbers (PStr i # ks) =
     (if startswith i ''widget_'' then
        (case py_int (last_segment i) of
           None \<Rightarrow> Inl ValueError
         | Some n \<Rightarrow> (case id_numbers ks of Inl e \<Rightarrow> Inl e | Inr ns \<Rightarrow> Inr (n # ns)))
      else id_numbers ks)"
| "id_numbers (k # ks) = Inl AttributeError"

text \<open>
  The block under \<^verbatim>\<open>if "widgets" in project_data\<close>, from the value of
  \<^verbatim>\<open>project_data["widgets"]\<close> on: the new widgets and the counter.  The method has
  emptied \<open>widgets\<close> before.
\<close>

definition load_widget_list ::
  "pyval \<Rightarrow> state_manager \<Rightarrow> py_error option \<times> state_manager" where
  "load_widget_list ws s =
     (case py_iter ws of
        Inl e \<Rightarrow> (Some e, s)
      | Inr xs \<Rightarrow>
          (case load_widgets xs 0 [] [] of
             (Some e, loaded, shared) \<Rightarrow> (Some e, s\<lparr>widgets := loaded, shared_widgets := shared\<rparr>)
           | (None, loaded, shared) \<Rightarrow>
               (let s = s\<lparr>widgets := loaded, shared_widgets := shared\<rparr>
                in if loaded = [] then (None, s)
                   else case id_numbers (map fst loaded) of
                          Inl e \<Rightarrow> (Some e, s)
                        | Inr ns \<Rightarrow>
                            (case py_max ns of
                               Inl e \<Rightarrow> (Some e, s)
                             | Inr max_id \<Rightarrow> (None, s\<lparr>widget_counter := max_id\<rparr>)))))"

text \<open>
  One of the two \<^verbatim>\<open>if key in project_data: self.<settings>.update(project_data[key])\<close>:
  the exception, if any, and the settings dict as it is left.
\<close>

definition load_setting :: "string \<Rightarrow> pyval \<Rightarrow> pydict \<Rightarrow> py_error option \<times> pydict" where
  "load_setting key doc settings =
     (case py_in key doc of
        Inl e \<Rightarrow> (Some e, settings)
      | Inr False \<Rightarrow> (None, settings)
      | Inr True \<Rightarrow>
          (case py_getitem doc key of
             Inl e \<Rightarrow> (Some e, settings)
           | Inr v \<Rightarrow> dict_update_any settings v))"

text \<open>The settings, the framework and the reset of selection and history.\<close>

definition load_settings ::
  "pyval \<Rightarrow> state_manager \<Rightarrow> py_error option \<times> state_manager" where
  "load_settings doc s =
     (case load_setting ''canvas_settings'' doc (canvas_settings s) of
        (Some e, cs) \<Rightarrow> (Some e, s\<lparr>canvas_settings := cs\<rparr>)
      | (None, cs) \<Rightarrow>
          (let s = s\<lparr>canvas_settings := cs\<rparr>
           in case load_setting ''layer_config'' doc (layer_config s) of
                (Some e, lc) \<Rightarrow> (Some e, s\<lparr>layer_config := lc\<rparr>)
              | (None, lc) \<Rightarrow>
                  (let s = s\<lparr>layer_config := lc\<rparr>
                   in case py_in ''framework'' doc of
                        Inl e \<Rightarrow> (Some e, s)
                      | Inr present \<Rightarrow>
                          (case (if present then py_getitem doc ''framework''
                                 else Inr (target_framework s)) of
                             Inl e \<Rightarrow> (Some e, s)
                           | Inr f \<Rightarrow>
                               (let s = s\<lparr>target_framework := f, selected_widget_id := None,
                                          unsaved_changes := False,
                                          undo_stack := [], redo_stack := []\<rparr>
                                in (None, save_initial_state s))))))"

text \<open>
  The method: \<open>project_data\<close> becomes a copy of the document, which holds the objects of
  the document, and the widgets held before are shared with it no longer.  An exception
  leaves the state as it is at that point.
\<close>

definition load_project_data ::
  "pyval \<Rightarrow> state_manager \<Rightarrow> (py_error + unit) \<times> state_manager" where
  "load_project_data doc s =
     (case py_copy doc of
        Inl e \<Rightarrow> (Inl e, s)
      | Inr c \<Rightarrow>
          (let s = s\<lparr>project_data := c, shared_widgets := []\<rparr>
           in case py_in ''widgets'' doc of
                Inl e \<Rightarrow> (Inl e, s)
              | Inr present \<Rightarrow>
                  (case (if present then
                           (let s = s\<lparr>widgets := []\<rparr>
                            in case py_getitem doc ''widgets'' of
                                 Inl e \<Rightarrow> (Some e, s)
                               | Inr ws \<Rightarrow> load_widget_list ws s)
                         else (None, s)) of
                     (Some e, s) \<Rightarrow> (Inl e, s)
                   | (None, s) \<Rightarrow>
                       (case load_settings doc s of
                          (Some e, s) \<Rightarrow> (Inl e, s)
                        | (None, s) \<Rightarrow> (Inr (), s)))))"


section \<open>The project manager (\<^verbatim>\<open>core/project_manager.py\<close>)\<close>




section \<open>Sequences of calls, and what the theorems read from a state\<close>

text \<open>
  A sequence of \<^verbatim>\<open>add_widget\<close> and \<^verbatim>\<open>remove_widget\<close> calls, run from a state;
  \<^verbatim>\<open>run_ops\<close> returns the ids that the \<^verbatim>\<open>add_widget\<close> calls returned, in order, and
  the final state.  A call that raises returns no id and the sequence goes on from the
  state it left.
\<close>

datatype sm_op = Add pydict | Remove string

fun run_ops :: "sm_op list \<Rightarrow> state_manager \<Rightarrow> string list \<times> state_manager" where
  "run_ops [] s = ([], s)"
| "run_ops (Add widget_data # ops) s =
     (case add_widget widget_data s of
        (Inr new_id, s') \<Rightarrow> (case run_ops ops s' of (ids, s'') \<Rightarrow> (new_id # ids, s''))
      | (Inl e, s') \<Rightarrow> run_ops ops s')"
| "run_ops (Remove wid # ops) s = run_ops ops (snd (remove_widget wid s))"

text \<open>
  The id \<^verbatim>\<open>widget_<n>\<close>, and the numeric suffix of an id as \<^verbatim>\<open>load_project_data\<close> reads
  it.
\<close>

definition widget_id_of :: "int \<Rightarrow> string" where
  "widget_id_of n = ''widget_'' @ str_of_int n"

definition id_number :: "string \<Rightarrow> int option" where
  "id_number i = py_int (last_segment i)"




text \<open>
  The value of a property of a stored widget and of the main window, and a field of a
  nested group such as \<^verbatim>\<open>colors\<close>.
\<close>

definition widget_property :: "state_manager \<Rightarrow> string \<Rightarrow> string \<Rightarrow> pyval option" where
  "widget_property s wid key =
     (case map_of (widgets s) (PStr wid) of
        Some w \<Rightarrow>
          (case map_of w (PStr ''properties'') of
             Some (PDict p) \<Rightarrow> map_of p (PStr key)
           | _ \<Rightarrow> None)
      | None \<Rightarrow> None)"

definition window_property :: "state_manager \<Rightarrow> string \<Rightarrow> pyval option" where
  "window_property s key =
     (case project_data s of
        PDict pd \<Rightarrow>
          (case map_of pd (PStr ''main_window'') of
             Some (PDict mw) \<Rightarrow>
               (case map_of mw (PStr ''properties'') of
                  Some (PDict p) \<Rightarrow> map_of p (PStr key)
                | _ \<Rightarrow> None)
           | _ \<Rightarrow> None)
      | _ \<Rightarrow> None)"

definition group_field :: "pyval option \<Rightarrow> string \<Rightarrow> pyval option" where
  "group_field g field = (case g of Some (PDict d) \<Rightarrow> map_of d (PStr field) | _ \<Rightarrow> None)"

text \<open>
  A button as the canvas creates it, a partial update of one colour, a project document
  with a stored counter, one with an id that ends in no number, and two documents that
  are no JSON objects.
\<close>

definition example_button :: pydict where
  "example_button =
     [(PStr ''type'', PStr ''Button''),
      (PStr ''properties'', PDict
         [(PStr ''name'', PStr ''ok''),
          (PStr ''colors'', PDict
             [(PStr ''background'', PStr ''#FFFFFF''), (PStr ''foreground'', PStr ''#000000''),
              (PStr ''border'', PStr ''#CCCCCC'')])])]"

definition background_update :: pydict where
  "background_update =
     [(PStr ''properties'', PDict
         [(PStr ''colors'', PDict [(PStr ''background'', PStr ''#123456'')])])]"

definition example_widget_list :: "pyval list" where
  "example_widget_list =
     [PDict [(PStr ''id'', PStr ''widget_3''), (PStr ''type'', PStr ''Button'')],
      PDict [(PStr ''id'', PStr ''widget_7''), (PStr ''type'', PStr ''Label'')],
      PDict [(PStr ''id'', PStr ''logo''), (PStr ''type'', PStr ''Label'')]]"

definition example_document :: pydict where
  "example_document =
     [(PStr ''name'', PStr ''Demo''), (PStr ''framework'', PStr ''Tkinter''),
      (PStr ''main_window'', PDict []), (PStr ''widgets'', PList example_widget_list),
      (PStr ''widget_counter'', PInt 99)]"





section \<open>Shared helpers of the generators (\<^verbatim>\<open>generators/base_generator.py\<close>)\<close>

text \<open>
  The generators build source text with f-strings over the records of the intermediate
  representation.  The only statements in them that can raise on such a record are the
  unpacking and the indexing of a geometry list; a generator function that reaches one
  returns an exception or its text.
\<close>

definition get_or :: "'a \<Rightarrow> 'a option \<Rightarrow> 'a" where
  "get_or d x = (case x of None \<Rightarrow> d | Some v \<Rightarrow> v)"

text \<open>\<^verbatim>\<open>"\"" + s + "\""\<close>: a quoted string inside an f-string.\<close>

definition quoted :: "string \<Rightarrow> string" where
  "quoted s = dq # s @ [dq]"

text \<open>\<^verbatim>\<open>s.replace('"', '\\"')\<close>.\<close>

definition escape_quotes :: "string \<Rightarrow> string" where
  "escape_quotes s = replace_char dq [bslash, dq] s"

text \<open>\<^verbatim>\<open>c.isspace()\<close> below code point 256, and \<^verbatim>\<open>s.strip()\<close>.\<close>

definition py_isspace :: "char \<Rightarrow> bool" where
  "py_isspace c \<longleftrightarrow>
     c \<in> {CHR 0x09, CHR 0x0A, CHR 0x0B, CHR 0x0C, CHR 0x0D, CHR 0x1C, CHR 0x1D, CHR 0x1E,
           CHR 0x1F, CHR 0x20, CHR 0x85, CHR 0xA0}"

definition py_strip :: "string \<Rightarrow> string" where
  "py_strip s = rev (dropWhile py_isspace (rev (dropWhile py_isspace s)))"

text \<open>\<^verbatim>\<open>s.split(sep)\<close> for a one-character separator: never an empty list.\<close>

fun split_on :: "char \<Rightarrow> string \<Rightarrow> string list" where
  "split_on sep [] = [[]]"
| "split_on sep (c # cs) =
     (if c = sep then [] # split_on sep cs
      else case split_on sep cs of l # ls \<Rightarrow> (c # l) # ls | [] \<Rightarrow> [[c]])"

text \<open>\<^verbatim>\<open>BaseGenerator.format_code\<close>.\<close>

definition format_code :: "string \<Rightarrow> nat \<Rightarrow> string" where
  "format_code code indent_level =
     (let lines = split_on nl (py_strip code);
          indent = concat (replicate indent_level ''    '')
      in join [nl] (map (\<lambda>line. if py_strip line \<noteq> [] then indent @ line else []) lines))"

text \<open>The branches on \<^verbatim>\<open>action_type\<close> shared by both \<^verbatim>\<open>generate_button_handler\<close> methods.\<close>

definition action_type_of :: "action_data \<Rightarrow> string" where
  "action_type_of action = get_or ''none'' (act_type action)"

definition no_action :: action_data where
  "no_action = \<lparr>act_type = None, act_target = None\<rparr>"

definition no_font :: font_data where
  "no_font = \<lparr>font_family = None, font_size = None, font_bold = None, font_italic = None,
     font_other = False\<rparr>"

definition no_colors :: colors_data where
  "no_colors = \<lparr>col_background = None, col_foreground = None, col_border = None,
     col_other = False\<rparr>"

text \<open>\<^verbatim>\<open>if font_data:\<close> and \<^verbatim>\<open>if colors:\<close>: the dict is not empty.\<close>

definition font_nonempty :: "font_data \<Rightarrow> bool" where
  "font_nonempty f \<longleftrightarrow>
     font_family f \<noteq> None \<or> font_size f \<noteq> None \<or> font_bold f \<noteq> None \<or>
     font_italic f \<noteq> None \<or> font_other f"

definition colors_nonempty :: "colors_data \<Rightarrow> bool" where
  "colors_nonempty c \<longleftrightarrow>
     col_background c \<noteq> None \<or> col_foreground c \<noteq> None \<or> col_border c \<noteq> None \<or> col_other c"

text \<open>The statements of \<^verbatim>\<open>enumerate(tab_data)\<close> loops: one pair of lines per tab.\<close>

fun tab_lines :: "(nat \<Rightarrow> string \<Rightarrow> string list) \<Rightarrow> nat \<Rightarrow> tab_info list \<Rightarrow> string list" where
  "tab_lines line i [] = []"
| "tab_lines line i (t # ts) =
     line i (escape_quotes (get_or (''Tab '' @ str_of_nat (i + 1)) (tab_title t)))
       @ tab_lines line (i + 1) ts"

definition project_name_of :: "project \<Rightarrow> string" where
  "project_name_of p = replace_char (CHR '' '') [] (get_or ''MyApplication'' (pr_name p))"

definition project_widgets :: "project \<Rightarrow> widget list" where
  "project_widgets p = get_or [] (pr_widgets p)"

definition no_window_properties :: window_properties where
  "no_window_properties = \<lparr>wp_title = None, wp_geometry = None, wp_colors = None\<rparr>"

definition project_window_properties :: "project \<Rightarrow> window_properties" where
  "project_window_properties p =
     (case pr_main_window p of
        None \<Rightarrow> no_window_properties
      | Some mw \<Rightarrow> get_or no_window_properties (mw_properties mw))"


section \<open>The PyQt6 generator (\<^verbatim>\<open>generators/pyqt6_generator.py\<close>)\<close>

definition pyqt6_class_map :: "(string \<times> string) list" where
  "pyqt6_class_map =
     [(''Button'', ''QPushButton''), (''Label'', ''QLabel''), (''Entry'', ''QLineEdit''),
      (''Text'', ''QTextEdit''), (''Checkbox'', ''QCheckBox''),
      (''RadioButton'', ''QRadioButton''), (''ComboBox'', ''QComboBox''),
      (''ListBox'', ''QListWidget''), (''Frame'', ''QFrame''), (''Tabs'', ''QTabWidget''),
      (''Slider'', ''QSlider''), (''ProgressBar'', ''QProgressBar''),
      (''SpinBox'', ''QSpinBox''), (''ScrollArea'', ''QScrollArea''),
      (''GroupBox'', ''QGroupBox''), (''Splitter'', ''QSplitter''),
      (''StackedWidget'', ''QStackedWidget'')]"

text \<open>
  \<^verbatim>\<open>generate_imports\<close>.  The loop \<^verbatim>\<open>for widget_type in used_widgets\<close> runs over a Python
  set, whose order of iteration is not fixed; \<open>order\<close> is that order, a list of the
  elements of the set.  The set \<^verbatim>\<open>widget_classes\<close> is a list without repetitions, and
  \<^verbatim>\<open>sorted\<close> is \<^const>\<open>sort\<close> over the order of strings by code point.
\<close>

definition used_widgets :: "project \<Rightarrow> string option set" where
  "used_widgets p = set (map w_type (project_widgets p))"

definition iteration_order :: "project \<Rightarrow> string option list \<Rightarrow> bool" where
  "iteration_order p order \<longleftrightarrow> set order = used_widgets p \<and> distinct order"

fun add_used_classes :: "string option list \<Rightarrow> string list \<Rightarrow> string list" where
  "add_used_classes [] widget_classes = widget_classes"
| "add_used_classes (t # ts) widget_classes =
     add_used_classes ts
       (case t of
          None \<Rightarrow> widget_classes
        | Some wtype \<Rightarrow>
            (case map_of pyqt6_class_map wtype of
               None \<Rightarrow> widget_classes
             | Some qt_class \<Rightarrow>
                 if qt_class \<noteq> [] then List.insert qt_class widget_classes else widget_classes))"

fun import_lines :: "string list \<Rightarrow> string list" where
  "import_lines [] = []"
| "import_lines [c] = [''    '' @ c]"
| "import_lines (c # d # cs) = (''    '' @ c @ '','') # import_lines (d # cs)"

definition generate_imports_pyqt6 :: "string option list \<Rightarrow> string" where
  "generate_imports_pyqt6 order =
     (let widget_classes = add_used_classes order [''QApplication'', ''QMainWindow'', ''QWidget''];
          widget_classes = fold List.insert [''QVBoxLayout'', ''QHBoxLayout'', ''QGridLayout'']
                             widget_classes;
          sorted_classes = sort widget_classes
      in join [nl]
           ([''import sys'', ''from PyQt6.QtWidgets import (''] @ import_lines sorted_classes
            @ ['')'', ''from PyQt6.QtCore import Qt'', ''from PyQt6.QtGui import QFont, QColor'']))"

definition generate_geometry_code_pyqt6 :: "int list \<Rightarrow> py_error + string" where
  "generate_geometry_code_pyqt6 geometry =
     (case geometry of
        [x, y, width, height] \<Rightarrow>
          Inr (str_of_int x @ '', '' @ str_of_int y @ '', '' @ str_of_int width @ '', ''
               @ str_of_int height)
      | _ \<Rightarrow> Inl ValueError)"

definition generate_font_code_pyqt6 :: "font_data \<Rightarrow> string" where
  "generate_font_code_pyqt6 f =
     quoted (get_or ''Arial'' (font_family f)) @ '', '' @ str_of_int (get_or 9 (font_size f))"

definition range_lines :: "string \<Rightarrow> properties \<Rightarrow> int \<Rightarrow> int \<Rightarrow> int \<Rightarrow> string list" where
  "range_lines var_ref p dmin dmax dval =
     [var_ref @ ''.setMinimum('' @ str_of_int (get_or dmin (p_minimum p)) @ '')'',
      var_ref @ ''.setMaximum('' @ str_of_int (get_or dmax (p_maximum p)) @ '')'',
      var_ref @ ''.setValue('' @ str_of_int (get_or dval (p_value p)) @ '')'']"

definition widget_specific_parts_pyqt6 :: "string \<Rightarrow> properties \<Rightarrow> string \<Rightarrow> string list" where
  "widget_specific_parts_pyqt6 wtype p var_ref =
     (if wtype = ''Entry'' then
        (case p_placeholder p of
           None \<Rightarrow> []
         | Some ph \<Rightarrow> [var_ref @ ''.setPlaceholderText('' @ quoted (escape_quotes ph) @ '')''])
        @ (if get_or False (p_readonly p) then [var_ref @ ''.setReadOnly(True)''] else [])
      else if wtype = ''Text'' then
        (if get_or False (p_readonly p) then [var_ref @ ''.setReadOnly(True)''] else [])
        @ (if \<not> get_or True (p_word_wrap p)
           then [var_ref @ ''.setWordWrapMode(QTextOption.WrapMode.NoWrap)''] else [])
      else if wtype \<in> set [''Checkbox'', ''RadioButton''] then
        (if get_or False (p_checked p) then [var_ref @ ''.setChecked(True)''] else [])
      else if wtype \<in> set [''ComboBox'', ''ListBox''] then
        (let items = get_or [] (p_items p)
         in if items \<noteq> []
            then [var_ref @ ''.addItems(['' @ join '', '' (map quoted items) @ ''])'']
            else [])
      else if wtype = ''Slider'' then
        [var_ref @ ''.setOrientation(''
           @ (if get_or ''horizontal'' (p_orientation p) = ''horizontal''
              then ''Qt.Orientation.Horizontal'' else ''Qt.Orientation.Vertical'') @ '')'']
        @ range_lines var_ref p 0 100 50
      else if wtype = ''ProgressBar'' then range_lines var_ref p 0 100 0
      else if wtype = ''SpinBox'' then range_lines var_ref p 0 99 0
      else if wtype = ''Tabs'' then
        tab_lines (\<lambda>i title. [''tab_'' @ str_of_nat i @ '' = QWidget()'',
                     var_ref @ ''.addTab(tab_'' @ str_of_nat i @ '', '' @ quoted title @ '')''])
          0 (get_or [] (p_tab_data p))
      else [])"

definition generate_widget_specific_code_pyqt6 :: "string \<Rightarrow> properties \<Rightarrow> string \<Rightarrow> string" where
  "generate_widget_specific_code_pyqt6 wtype p var_ref =
     join [nl] (widget_specific_parts_pyqt6 wtype p var_ref)"

definition common_parts_pyqt6 :: "properties \<Rightarrow> string \<Rightarrow> string list" where
  "common_parts_pyqt6 p var_ref =
     (if \<not> get_or True (p_enabled p) then [var_ref @ ''.setEnabled(False)''] else [])
     @ (if \<not> get_or True (p_visible p) then [var_ref @ ''.setVisible(False)''] else [])
     @ (let font = get_or no_font (p_font p)
        in if font_nonempty font then
             [var_ref @ ''_font = QFont('' @ generate_font_code_pyqt6 font @ '')'']
             @ (if get_or False (font_bold font) then [var_ref @ ''_font.setBold(True)''] else [])
             @ (if get_or False (font_italic font) then [var_ref @ ''_font.setItalic(True)''] else [])
             @ [var_ref @ ''.setFont('' @ var_ref @ ''_font)'']
           else [])
     @ (let colors = get_or no_colors (p_colors p)
        in if colors_nonempty colors then
             (let style_parts =
                    (case col_background colors of
                       None \<Rightarrow> [] | Some c \<Rightarrow> [''background-color: '' @ c])
                    @ (case col_foreground colors of None \<Rightarrow> [] | Some c \<Rightarrow> [''color: '' @ c])
                    @ (case col_border colors of
                         None \<Rightarrow> [] | Some c \<Rightarrow> [''border: 1px solid '' @ c])
              in if style_parts \<noteq> []
                 then [var_ref @ ''.setStyleSheet('' @ quoted (join ''; '' style_parts @ '';'') @ '')'']
                 else [])
           else [])"

definition generate_common_properties_code_pyqt6 :: "properties \<Rightarrow> string \<Rightarrow> string" where
  "generate_common_properties_code_pyqt6 p var_ref = join [nl] (common_parts_pyqt6 p var_ref)"

definition generate_widget_code_pyqt6 :: "widget \<Rightarrow> string \<Rightarrow> py_error + string" where
  "generate_widget_code_pyqt6 w parent_var =
     (let wtype = widget_type w;
          p = widget_properties w;
          qt_class = get_or ''QWidget'' (map_of pyqt6_class_map wtype);
          var_name = sanitize_name (declared_name p);
          var_ref = parent_var @ ''.'' @ var_name;
          creation =
            (if wtype \<in> set [''Button'', ''Label'', ''Checkbox'', ''RadioButton'', ''GroupBox'']
             then var_ref @ '' = '' @ qt_class @ ''('' @ quoted (get_or [] (p_text p)) @ '', ''
                    @ parent_var @ ''.central_widget)''
             else var_ref @ '' = '' @ qt_class @ ''('' @ parent_var @ ''.central_widget)'')
      in case generate_geometry_code_pyqt6 (get_or [0, 0, 100, 50] (p_geometry p)) of
           Inl e \<Rightarrow> Inl e
         | Inr geometry_code \<Rightarrow>
             (let widget_specific_code = generate_widget_specific_code_pyqt6 wtype p var_ref;
                  common_code = generate_common_properties_code_pyqt6 p var_ref
              in Inr (join [nl]
                   ([creation, var_ref @ ''.setGeometry('' @ geometry_code @ '')'']
                    @ (if widget_specific_code \<noteq> [] then [widget_specific_code] else [])
                    @ (if common_code \<noteq> [] then [common_code] else [])))))"

definition generate_button_handler_pyqt6 :: "string \<Rightarrow> action_data \<Rightarrow> string" where
  "generate_button_handler_pyqt6 button_name action =
     (let action_type = action_type_of action
      in join [nl]
           ([''    def on_'' @ button_name @ ''_clicked(self):'',
             ''        '' @ [dq, dq, dq] @ ''Handle '' @ button_name @ '' click event.'' @ [dq, dq, dq]]
            @ (if action_type = ''message'' then
                 [''        from PyQt6.QtWidgets import QMessageBox'',
                  ''        QMessageBox.information(self, '' @ quoted ''Message'' @ '', ''
                    @ quoted (get_or ''Hello!'' (act_target action)) @ '')'']
               else if action_type = ''function'' then
                 [''        self.'' @ get_or ''custom_function'' (act_target action) @ ''()'']
               else
                 [''        # TODO: Implement '' @ action_type @ '' action'', ''        pass''])))"

text \<open>
  The handlers of \<^verbatim>\<open>generate_event_handlers\<close>: one for every button whose action type is
  not \<^verbatim>\<open>none\<close>, named after the resolved variable name of its id.  Every id is a key of
  \<^verbatim>\<open>var_names\<close>; the lookup falls back to the empty string only to be total.
\<close>

definition button_handlers ::
  "(string \<Rightarrow> action_data \<Rightarrow> string) \<Rightarrow> widget list \<Rightarrow> (string \<times> string) list \<Rightarrow> string list" where
  "button_handlers handler ws var_names =
     concat (map (\<lambda>w.
        if has_key (widget_id w) var_names \<and> widget_type w = ''Button''
        then (let action = get_or no_action (p_action (widget_properties w))
              in if act_type action \<noteq> Some ''none''
                 then [handler (get_or [] (map_of var_names (widget_id w))) action]
                 else [])
        else []) ws)"

definition generate_event_handlers_pyqt6 :: "widget list \<Rightarrow> (string \<times> string) list \<Rightarrow> string" where
  "generate_event_handlers_pyqt6 ws var_names =
     join [nl] (button_handlers generate_button_handler_pyqt6 ws var_names)"

text \<open>
  The loop over the widgets in \<^verbatim>\<open>generate_class_definition\<close>: for every widget an empty
  line and its indented code; the first widget whose code raises ends the generation.
\<close>

fun widget_blocks ::
  "(widget \<Rightarrow> string \<Rightarrow> py_error + string) \<Rightarrow> widget list \<Rightarrow> (string \<times> string) list
     \<Rightarrow> py_error + string list" where
  "widget_blocks gen [] var_names = Inr []"
| "widget_blocks gen (w # ws) var_names =
     (if has_key (widget_id w) var_names then
        (case gen w ''self'' of
           Inl e \<Rightarrow> Inl e
         | Inr widget_code \<Rightarrow>
             (case widget_blocks gen ws var_names of
                Inl e \<Rightarrow> Inl e
              | Inr rest \<Rightarrow> Inr ([[], format_code widget_code 2] @ rest)))
      else widget_blocks gen ws var_names)"

definition generate_class_definition_pyqt6 ::
  "string \<Rightarrow> window_properties \<Rightarrow> widget list \<Rightarrow> (string \<times> string) list \<Rightarrow> py_error + string" where
  "generate_class_definition_pyqt6 class_name wp ws var_names =
     (case generate_geometry_code_pyqt6 (get_or [100, 100, 800, 600] (wp_geometry wp)) of
        Inl e \<Rightarrow> Inl e
      | Inr geometry_code \<Rightarrow>
          (case widget_blocks generate_widget_code_pyqt6 ws var_names of
             Inl e \<Rightarrow> Inl e
           | Inr blocks \<Rightarrow>
               (let event_handlers = generate_event_handlers_pyqt6 ws var_names
                in Inr (join [nl]
                     ([''class '' @ class_name @ ''(QMainWindow):'',
                       ''    '' @ [dq, dq, dq] @ ''Main application window.'' @ [dq, dq, dq],
                       [],
                       ''    def __init__(self):'',
                       ''        super().__init__()'',
                       ''        self.setWindowTitle(''
                         @ quoted (get_or ''My Application'' (wp_title wp)) @ '')'',
                       ''        self.setGeometry('' @ geometry_code @ '')'',
                       [],
                       ''        # Setup central widget'',
                       ''        self.central_widget = QWidget()'',
                       ''        self.setCentralWidget(self.central_widget)'',
                       [],
                       ''        self.setup_ui()'',
                       [],
                       ''    def setup_ui(self):'',
                       ''        '' @ [dq, dq, dq] @ ''Initialize the user interface.'' @ [dq, dq, dq]]
                      @ blocks
                      @ (if event_handlers \<noteq> [] then [[], event_handlers] else []))))))"

definition generate_main_function_pyqt6 :: "string \<Rightarrow> string" where
  "generate_main_function_pyqt6 class_name =
     join [nl]
       [''def main():'',
        ''    '' @ [CHR 0x27, CHR 0x27, CHR 0x27] @ ''Main function to run the application.''
          @ [CHR 0x27, CHR 0x27, CHR 0x27],
        ''    app = QApplication(sys.argv)'',
        ''    '',
        ''    # Create and show the main window'',
        ''    window = '' @ class_name @ ''()'',
        ''    window.show()'',
        ''    '',
        ''    # Run the application event loop'',
        ''    sys.exit(app.exec())'',
        [],
        [],
        ''if __name__ == '' @ [CHR 0x27] @ ''__main__'' @ [CHR 0x27] @ '':'',
        ''    main()'']"

definition generate_main_file_pyqt6 :: "string option list \<Rightarrow> project \<Rightarrow> py_error + string" where
  "generate_main_file_pyqt6 order p =
     (let project_name = project_name_of p;
          ws = project_widgets p;
          var_names = resolve_variable_names ws;
          imports = generate_imports_pyqt6 order
      in case generate_class_definition_pyqt6 project_name (project_window_properties p) ws
                var_names of
           Inl e \<Rightarrow> Inl e
         | Inr class_def \<Rightarrow>
             Inr (imports @ [nl, nl, nl] @ class_def @ [nl, nl, nl]
                  @ generate_main_function_pyqt6 project_name))"


section \<open>The Tkinter generator (\<^verbatim>\<open>generators/tkinter_generator.py\<close>)\<close>

definition tkinter_class_map :: "(string \<times> string) list" where
  "tkinter_class_map =
     [(''Button'', ''tk.Button''), (''Label'', ''tk.Label''), (''Entry'', ''tk.Entry''),
      (''Text'', ''tk.Text''), (''Checkbox'', ''tk.Checkbutton''),
      (''RadioButton'', ''tk.Radiobutton''), (''ComboBox'', ''ttk.Combobox''),
      (''ListBox'', ''tk.Listbox''), (''Frame'', ''tk.Frame''), (''Tabs'', ''ttk.Notebook''),
      (''Slider'', ''tk.Scale''), (''ProgressBar'', ''ttk.Progressbar''),
      (''SpinBox'', ''tk.Spinbox''), (''ScrollArea'', ''tk.Frame'')]"

definition generate_imports_tk :: "project \<Rightarrow> string" where
  "generate_imports_tk p =
     (let uses_ttk = list_ex (\<lambda>w. w_type w \<in> set [Some ''ComboBox'', Some ''ProgressBar'', Some ''Tabs''])
                       (project_widgets p)
      in join [nl]
           ([''import tkinter as tk'', ''from tkinter import messagebox'']
            @ (if uses_ttk then [''from tkinter import ttk''] else [])))"

text \<open>\<^verbatim>\<open>colors.get(key)\<close> as a condition: the key is there and its string is not empty.\<close>

definition truthy_str :: "string option \<Rightarrow> bool" where
  "truthy_str x \<longleftrightarrow> (case x of None \<Rightarrow> False | Some s \<Rightarrow> s \<noteq> [])"

definition font_option_tk :: "font_data \<Rightarrow> string" where
  "font_option_tk f =
     ''font=('' @ quoted (get_or ''Arial'' (font_family f)) @ '', ''
       @ str_of_int (get_or 9 (font_size f)) @ '', ''
       @ quoted (if get_or False (font_bold f) then ''bold'' else ''normal'') @ '', ''
       @ quoted (if get_or False (font_italic f) then ''italic'' else ''roman'') @ '')''"

definition generate_widget_specific_options_tk :: "string \<Rightarrow> properties \<Rightarrow> string list" where
  "generate_widget_specific_options_tk wtype p =
     (if wtype = ''Entry'' then
        (if get_or False (p_readonly p) then [''state='' @ quoted ''readonly''] else [])
      else if wtype = ''Text'' then
        (if get_or False (p_readonly p) then [''state='' @ quoted ''disabled''] else [])
        @ (if \<not> get_or True (p_word_wrap p) then [''wrap='' @ quoted ''none''] else [])
      else if wtype = ''Checkbox'' then []
      else if wtype = ''RadioButton'' then
        [''variable=self.'' @ get_or ''default'' (p_group p) @ ''_var'']
      else if wtype = ''Button'' then
        (if act_type (get_or no_action (p_action p)) \<noteq> Some ''none''
         then [''command=self.on_'' @ sanitize_name (declared_name p) @ ''_clicked'']
         else [])
      else if wtype = ''Slider'' then
        [''from_='' @ str_of_int (get_or 0 (p_minimum p)),
         ''to='' @ str_of_int (get_or 100 (p_maximum p)),
         ''orient='' @ quoted (get_or ''horizontal'' (p_orientation p)),
         ''length=200'']
      else if wtype = ''SpinBox'' then
        [''from_='' @ str_of_int (get_or 0 (p_minimum p)),
         ''to='' @ str_of_int (get_or 99 (p_maximum p)),
         ''value='' @ str_of_int (get_or 0 (p_value p))]
      else [])"

definition post_creation_parts_tk :: "string \<Rightarrow> properties \<Rightarrow> string \<Rightarrow> string list" where
  "post_creation_parts_tk wtype p var_ref =
     (if wtype = ''Entry'' \<and> p_placeholder p \<noteq> None then
        (let placeholder = escape_quotes (get_or [] (p_placeholder p))
         in [var_ref @ ''.insert(0, '' @ quoted placeholder @ '')'',
             var_ref @ ''.configure(fg='' @ quoted ''grey'' @ '')'',
             var_ref @ ''.bind('' @ quoted ''<FocusIn>'' @ '', lambda e: self.clear_placeholder(''
               @ var_ref @ '', '' @ quoted placeholder @ ''))'',
             var_ref @ ''.bind('' @ quoted ''<FocusOut>''
               @ '', lambda e: self.restore_placeholder('' @ var_ref @ '', ''
               @ quoted placeholder @ ''))''])
      else if wtype \<in> set [''ComboBox'', ''ListBox''] then
        (let items = get_or [] (p_items p)
         in if items \<noteq> [] \<and> wtype = ''ComboBox'' then
              [var_ref @ ''['' @ quoted ''values'' @ ''] = ('' @ join '', '' (map quoted items) @ '')'']
            else if items \<noteq> [] \<and> wtype = ''ListBox'' then
              map (\<lambda>item. var_ref @ ''.insert('' @ quoted ''end'' @ '', '' @ quoted item @ '')'') items
            else [])
      else if wtype = ''Checkbox'' \<and> get_or False (p_checked p) then [var_ref @ ''.select()'']
      else if wtype = ''RadioButton'' then
        (let group = get_or ''default'' (p_group p)
         in [''if not hasattr(self, '' @ quoted (group @ ''_var'') @ ''): self.'' @ group
               @ ''_var = tk.StringVar()'']
            @ (if get_or False (p_checked p)
               then [''self.'' @ group @ ''_var.set('' @ quoted (sanitize_name (declared_name p)) @ '')'']
               else []))
      else if wtype = ''Tabs'' then
        tab_lines (\<lambda>i title. [''tab_'' @ str_of_nat i @ '' = tk.Frame('' @ var_ref @ '')'',
                     var_ref @ ''.add(tab_'' @ str_of_nat i @ '', text='' @ quoted title @ '')''])
          0 (get_or [] (p_tab_data p))
      else if wtype = ''ProgressBar'' then
        [var_ref @ ''['' @ quoted ''maximum'' @ ''] = '' @ str_of_int (get_or 100 (p_maximum p)),
         var_ref @ ''['' @ quoted ''value'' @ ''] = '' @ str_of_int (get_or 0 (p_value p))]
      else [])"

definition generate_widget_post_creation_code_tk :: "string \<Rightarrow> properties \<Rightarrow> string \<Rightarrow> string" where
  "generate_widget_post_creation_code_tk wtype p var_ref =
     join [nl] (post_creation_parts_tk wtype p var_ref)"

text \<open>The options that \<^verbatim>\<open>generate_widget_code\<close> collects before the type-specific ones.\<close>

definition common_options_tk :: "string \<Rightarrow> properties \<Rightarrow> string list" where
  "common_options_tk wtype p =
     (if wtype \<in> set [''Button'', ''Label'', ''Checkbox'', ''RadioButton''] \<and> p_text p \<noteq> None
      then [''text='' @ quoted (escape_quotes (get_or [] (p_text p)))] else [])
     @ (let colors = get_or no_colors (p_colors p)
        in (if truthy_str (col_background colors)
            then [''bg='' @ quoted (get_or [] (col_background colors))] else [])
           @ (if truthy_str (col_foreground colors)
              then [''fg='' @ quoted (get_or [] (col_foreground colors))] else []))
     @ (let font = get_or no_font (p_font p)
        in if font_nonempty font then [font_option_tk font] else [])"

definition generate_widget_code_tk :: "widget \<Rightarrow> string \<Rightarrow> py_error + string" where
  "generate_widget_code_tk w parent_var =
     (let wtype = widget_type w;
          p = widget_properties w;
          tk_class = get_or ''tk.Widget'' (map_of tkinter_class_map wtype);
          var_name = sanitize_name (declared_name p);
          var_ref = parent_var @ ''.'' @ var_name;
          options = common_options_tk wtype p @ generate_widget_specific_options_tk wtype p;
          parent_ref = (if parent_var = ''self'' then parent_var @ ''.root'' else parent_var);
          options_str = join '', '' options;
          creation =
            (if options_str \<noteq> []
             then var_ref @ '' = '' @ tk_class @ ''('' @ parent_ref @ '', '' @ options_str @ '')''
             else var_ref @ '' = '' @ tk_class @ ''('' @ parent_ref @ '')'')
      in case get_or [0, 0, 100, 50] (p_geometry p) of
           [x, y, width, height] \<Rightarrow>
             (let post_code = generate_widget_post_creation_code_tk wtype p var_ref
              in Inr (join [nl]
                   ([creation,
                     var_ref @ ''.place(x='' @ str_of_int x @ '', y='' @ str_of_int y @ '', width=''
                       @ str_of_int width @ '', height='' @ str_of_int height @ '')'']
                    @ (if post_code \<noteq> [] then [post_code] else [])
                    @ (if \<not> get_or True (p_enabled p)
                       then [var_ref @ ''.configure(state='' @ quoted ''disabled'' @ '')'']
                       else []))))
         | _ \<Rightarrow> Inl ValueError)"

definition generate_button_handler_tk :: "string \<Rightarrow> action_data \<Rightarrow> string" where
  "generate_button_handler_tk button_name action =
     (let action_type = action_type_of action
      in join [nl]
           ([''    def on_'' @ button_name @ ''_clicked(self):'',
             ''        '' @ [dq, dq, dq] @ ''Handle '' @ button_name @ '' click event.'' @ [dq, dq, dq]]
            @ (if action_type = ''message'' then
                 [''        messagebox.showinfo('' @ quoted ''Message'' @ '', ''
                    @ quoted (get_or ''Hello!'' (act_target action)) @ '')'']
               else if action_type = ''function'' then
                 [''        self.'' @ get_or ''custom_function'' (act_target action) @ ''()'']
               else
                 [''        # TODO: Implement '' @ action_type @ '' action'', ''        pass''])))"

text \<open>
  \<^verbatim>\<open>generate_event_handlers\<close>: the two placeholder methods when an entry has a
  placeholder, then the button handlers, an empty line before each one that is not the
  first element of the list.
\<close>

definition placeholder_handlers :: "string list" where
  "placeholder_handlers =
     [''    def clear_placeholder(self, entry, placeholder):'',
      ''        if entry.get() == placeholder:'',
      ''            entry.delete(0, '' @ [CHR 0x27] @ ''end'' @ [CHR 0x27] @ '')'',
      ''            entry.configure(fg='' @ [CHR 0x27] @ ''black'' @ [CHR 0x27] @ '')'',
      [],
      ''    def restore_placeholder(self, entry, placeholder):'',
      ''        if not entry.get():'',
      ''            entry.insert(0, placeholder)'',
      ''            entry.configure(fg='' @ [CHR 0x27] @ ''grey'' @ [CHR 0x27] @ '')'']"

fun separated :: "string list \<Rightarrow> string list \<Rightarrow> string list" where
  "separated handlers [] = handlers"
| "separated handlers (h # hs) =
     separated ((if handlers \<noteq> [] then handlers @ [[]] else handlers) @ [h]) hs"

definition generate_event_handlers_tk :: "widget list \<Rightarrow> (string \<times> string) list \<Rightarrow> string" where
  "generate_event_handlers_tk ws var_names =
     (let has_placeholder =
            list_ex (\<lambda>w. w_type w = Some ''Entry'' \<and> p_placeholder (widget_properties w) \<noteq> None) ws;
          handlers = (if has_placeholder then placeholder_handlers else [])
      in join [nl] (separated handlers (button_handlers generate_button_handler_tk ws var_names)))"

definition generate_class_definition_tk ::
  "string \<Rightarrow> window_properties \<Rightarrow> widget list \<Rightarrow> (string \<times> string) list \<Rightarrow> py_error + string" where
  "generate_class_definition_tk class_name wp ws var_names =
     (let geometry = get_or [100, 100, 800, 600] (wp_geometry wp);
          colors = get_or no_colors (wp_colors wp)
      in if length geometry < 4 then Inl IndexError
         else (case widget_blocks generate_widget_code_tk ws var_names of
                 Inl e \<Rightarrow> Inl e
               | Inr blocks \<Rightarrow>
                   (let event_handlers = generate_event_handlers_tk ws var_names
                    in Inr (join [nl]
                         ([''class '' @ class_name @ '':'',
                           ''    '' @ [dq, dq, dq] @ ''Main application window.'' @ [dq, dq, dq],
                           [],
                           ''    def __init__(self):'',
                           ''        self.root = tk.Tk()'',
                           ''        self.root.title(''
                             @ quoted (get_or ''My Application'' (wp_title wp)) @ '')'',
                           ''        self.root.geometry(''
                             @ quoted (str_of_int (geometry ! 2) @ ''x'' @ str_of_int (geometry ! 3)
                                       @ ''+'' @ str_of_int (geometry ! 0) @ ''+''
                                       @ str_of_int (geometry ! 1)) @ '')'',
                           []]
                          @ (if truthy_str (col_background colors)
                             then [''        self.root.configure(bg=''
                                     @ quoted (get_or [] (col_background colors)) @ '')'']
                             else [])
                          @ [''        self.setup_ui()'',
                             [],
                             ''    def setup_ui(self):'',
                             ''        '' @ [dq, dq, dq] @ ''Initialize the user interface.''
                               @ [dq, dq, dq]]
                          @ blocks
                          @ (if event_handlers \<noteq> [] then [[], event_handlers] else [])
                          @ [[],
                             ''    def run(self):'',
                             ''        '' @ [dq, dq, dq] @ ''Start the main event loop.'' @ [dq, dq, dq],
                             ''        self.root.mainloop()''])))))"

definition generate_main_function_tk :: "string \<Rightarrow> string" where
  "generate_main_function_tk class_name =
     join [nl]
       [''def main():'',
        ''    '' @ [CHR 0x27, CHR 0x27, CHR 0x27] @ ''Main function to run the application.''
          @ [CHR 0x27, CHR 0x27, CHR 0x27],
        ''    app = '' @ class_name @ ''()'',
        ''    app.run()'',
        [],
        [],
        ''if __name__ == '' @ [CHR 0x27] @ ''__main__'' @ [CHR 0x27] @ '':'',
        ''    main()'']"

definition generate_main_file_tk :: "project \<Rightarrow> py_error + string" where
  "generate_main_file_tk p =
     (let project_name = project_name_of p;
          ws = project_widgets p;
          var_names = resolve_variable_names ws;
          imports = generate_imports_tk p
      in case generate_class_definition_tk project_name (project_window_properties p) ws
                var_names of
           Inl e \<Rightarrow> Inl e
         | Inr class_def \<Rightarrow>
             Inr (imports @ [nl, nl, nl] @ class_def @ [nl, nl, nl]
                  @ generate_main_function_tk project_name))"


section \<open>Project assembly and the generator registry\<close>

text \<open>
  The two generator objects.  \<^verbatim>\<open>generate_project\<close> of the base class puts the main file
  under \<^verbatim>\<open>main\<close> and the file extension and merges in the additional files, of which
  neither generator has any.  \<open>order\<close> is the order in which the PyQt6 generator iterates
  over its set of used widget types; the Tkinter generator iterates over no set.
\<close>

datatype generator = PyQt6Generator | TkinterGenerator

fun framework_name :: "generator \<Rightarrow> string" where
  "framework_name PyQt6Generator = ''PyQt6''"
| "framework_name TkinterGenerator = ''Tkinter''"

fun widget_class_map :: "generator \<Rightarrow> (string \<times> string) list" where
  "widget_class_map PyQt6Generator = pyqt6_class_map"
| "widget_class_map TkinterGenerator = tkinter_class_map"

fun generate_widget_code :: "generator \<Rightarrow> widget \<Rightarrow> string \<Rightarrow> py_error + string" where
  "generate_widget_code PyQt6Generator = generate_widget_code_pyqt6"
| "generate_widget_code TkinterGenerator = generate_widget_code_tk"

fun generate_main_file :: "generator \<Rightarrow> string option list \<Rightarrow> project \<Rightarrow> py_error + string" where
  "generate_main_file PyQt6Generator order p = generate_main_file_pyqt6 order p"
| "generate_main_file TkinterGenerator order p = generate_main_file_tk p"

definition get_file_extension :: "generator \<Rightarrow> string" where
  "get_file_extension g = ''.py''"

definition generate_additional_files :: "generator \<Rightarrow> project \<Rightarrow> (string \<times> string) list" where
  "generate_additional_files g p = []"

definition generate_project ::
  "generator \<Rightarrow> string option list \<Rightarrow> project \<Rightarrow> py_error + (string \<times> string) list" where
  "generate_project g order p =
     (case generate_main_file g order p of
        Inl e \<Rightarrow> Inl e
      | Inr main_file \<Rightarrow>
          Inr (dict_update [(''main'' @ get_file_extension g, main_file)]
                 (generate_additional_files g p)))"

text \<open>
  The module-level registry as a dict from framework name to generator, with
  \<^verbatim>\<open>register_generator\<close> and \<^verbatim>\<open>get_generator\<close>; the latter is \<^verbatim>\<open>dict.get\<close>, which returns
  \<^verbatim>\<open>None\<close> for a missing key and raises nothing.  \<open>default_registry\<close> is the registry after
  both generator modules are imported.
\<close>

definition register_generator ::
  "string \<Rightarrow> 'g \<Rightarrow> (string \<times> 'g) list \<Rightarrow> (string \<times> 'g) list" where
  "register_generator name g registry = AList.update name g registry"

definition get_generator :: "(string \<times> 'g) list \<Rightarrow> string \<Rightarrow> py_error + 'g option" where
  "get_generator registry name = Inr (map_of registry name)"

definition default_registry :: "(string \<times> generator) list" where
  "default_registry =
     register_generator ''Tkinter'' TkinterGenerator
       (register_generator ''PyQt6'' PyQt6Generator [])"

text \<open>
  \<^verbatim>\<open>ProjectManager.export_code\<close> (the name is a keyword of Isabelle).  \<open>generate\<close> is \<^verbatim>\<open>generate_project\<close> of a generator on
  the project dict, \<open>export_dir\<close> is the answer of the file dialog (\<^const>\<open>None\<close> when it
  is cancelled) and \<open>package\<close> is \<^verbatim>\<open>create_export_package\<close>, which writes the files.
  The result is the return value and the files that were generated, if generation ran.
  Every exception inside is caught and answered with \<^verbatim>\<open>False\<close>: \<^verbatim>\<open>get_project_data\<close>
  raises when the project data is no dict, a framework value that is not hashable makes
  the lookup raise, and the default file name is built with \<^verbatim>\<open>replace\<close> from the
  project name, which has to be a string.
\<close>

definition export_project_code ::
  "(string \<times> 'g) list \<Rightarrow> ('g \<Rightarrow> pydict \<Rightarrow> py_error + (string \<times> string) list) \<Rightarrow>
   string option \<Rightarrow> ((string \<times> string) list \<Rightarrow> bool) \<Rightarrow> state_manager \<Rightarrow>
   bool \<times> (string \<times> string) list option" where
  "export_project_code registry generate export_dir package s =
     (case get_project_data s of
        Inl e \<Rightarrow> (False, None)
      | Inr data \<Rightarrow>
          (case (case target_framework s of
                   PStr framework \<Rightarrow> get_generator registry framework
                 | PList l \<Rightarrow> Inl TypeError
                 | PDict d \<Rightarrow> Inl TypeError
                 | _ \<Rightarrow> Inr None) of
             Inl e \<Rightarrow> (False, None)
           | Inr None \<Rightarrow> (False, None)
           | Inr (Some g) \<Rightarrow>
               (case map_of data (PStr ''name'') of
                  Some (PStr project_name) \<Rightarrow>
                    (case export_dir of
                       None \<Rightarrow> (False, None)
                     | Some dir \<Rightarrow>
                         (case generate g data of
                            Inl e \<Rightarrow> (False, None)
                          | Inr generated_files \<Rightarrow>
                              (package generated_files, Some generated_files)))
                | Some _ \<Rightarrow> (False, None)
                | None \<Rightarrow>
                    (case export_dir of
                       None \<Rightarrow> (False, None)
                     | Some dir \<Rightarrow>
                         (case generate g data of
                            Inl e \<Rightarrow> (False, None)
                          | Inr generated_files \<Rightarrow>
                              (package generated_files, Some generated_files))))))"


section \<open>What the theorems about the generators refer to\<close>

text \<open>
  The classes that a list of used widget types adds to the imports; the geometry that
  \<^verbatim>\<open>generate_widget_code\<close> reads, and a project whose geometries all have four entries,
  as the data model says.
\<close>

definition used_classes :: "string option list \<Rightarrow> string set" where
  "used_classes order =
     {c. \<exists>t\<in>set order. \<exists>ty. t = Some ty \<and> map_of pyqt6_class_map ty = Some c \<and> c \<noteq> []}"

definition widget_geometry :: "widget \<Rightarrow> int list" where
  "widget_geometry w = get_or [0, 0, 100, 50] (p_geometry (widget_properties w))"

definition well_formed_geometry :: "project \<Rightarrow> bool" where
  "well_formed_geometry p \<longleftrightarrow>
     length (get_or [100, 100, 800, 600] (wp_geometry (project_window_properties p))) = 4 \<and>
     list_all (\<lambda>w. length (widget_geometry w) = 4) (project_widgets p)"

text \<open>
  The code that both generators emit for a widget whose type is not in their table: the
  construction of the generic class (\<^verbatim>\<open>QWidget\<close>, \<^verbatim>\<open>tk.Widget\<close>), the placement and the
  common property statements.
\<close>

definition fallback_code_pyqt6 :: "widget \<Rightarrow> string \<Rightarrow> string" where
  "fallback_code_pyqt6 w parent_var =
     (let p = widget_properties w;
          g = widget_geometry w;
          var_ref = parent_var @ ''.'' @ sanitize_name (declared_name p);
          common_code = generate_common_properties_code_pyqt6 p var_ref
      in join [nl]
           ([var_ref @ '' = QWidget('' @ parent_var @ ''.central_widget)'',
             var_ref @ ''.setGeometry('' @ str_of_int (g ! 0) @ '', '' @ str_of_int (g ! 1) @ '', ''
               @ str_of_int (g ! 2) @ '', '' @ str_of_int (g ! 3) @ '')'']
            @ (if common_code \<noteq> [] then [common_code] else [])))"

definition fallback_code_tk :: "widget \<Rightarrow> string \<Rightarrow> string" where
  "fallback_code_tk w parent_var =
     (let p = widget_properties w;
          g = widget_geometry w;
          var_ref = parent_var @ ''.'' @ sanitize_name (declared_name p);
          parent_ref = (if parent_var = ''self'' then parent_var @ ''.root'' else parent_var);
          options_str = join '', '' (common_options_tk (widget_type w) p)
      in join [nl]
           ([if options_str \<noteq> []
             then var_ref @ '' = tk.Widget('' @ parent_ref @ '', '' @ options_str @ '')''
             else var_ref @ '' = tk.Widget('' @ parent_ref @ '')'',
             var_ref @ ''.place(x='' @ str_of_int (g ! 0) @ '', y='' @ str_of_int (g ! 1)
               @ '', width='' @ str_of_int (g ! 2) @ '', height='' @ str_of_int (g ! 3) @ '')'']
            @ (if \<not> get_or True (p_enabled p)
               then [var_ref @ ''.configure(state='' @ quoted ''disabled'' @ '')''] else [])))"

fun fallback_code :: "generator \<Rightarrow> widget \<Rightarrow> string \<Rightarrow> string" where
  "fallback_code PyQt6Generator = fallback_code_pyqt6"
| "fallback_code TkinterGenerator = fallback_code_tk"

text \<open>
  A widget of a type that neither generator knows, a button with a message action, and a
  project of the two.
\<close>

definition unsupported_widget :: widget where
  "unsupported_widget =
     \<lparr>w_id = Some ''widget_1'', w_type = Some ''Gauge'',
      w_properties = Some (no_properties\<lparr>p_name := Some ''g1''\<rparr>)\<rparr>"

definition submit_button :: widget where
  "submit_button =
     \<lparr>w_id = Some ''widget_2'', w_type = Some ''Button'',
      w_properties = Some (no_properties
        \<lparr>p_name := Some ''submit'', p_text := Some ''Go'', p_geometry := Some [10, 20, 80, 30],
         p_action := Some \<lparr>act_type = Some ''message'', act_target = Some ''Done''\<rparr>\<rparr>)\<rparr>"

definition example_project :: project where
  "example_project =
     \<lparr>pr_name = Some ''My App'',
      pr_main_window = Some \<lparr>mw_properties = Some
        \<lparr>wp_title = Some ''Demo'', wp_geometry = Some [100, 100, 800, 600], wp_colors = None\<rparr>\<rparr>,
      pr_widgets = Some [unsupported_widget, submit_button]\<rparr>"


section \<open>Theorems: identifier resolution\<close>

lemma word_digit: "re_word_char c \<Longrightarrow> py_isdigit c \<longleftrightarrow> c \<in> set ''0123456789''"
  unfolding re_word_char_def py_isdigit_def by auto

lemma not_digit_us: "\<not> py_isdigit (CHR ''_'')" "CHR ''_'' \<notin> set ''0123456789''"
  by (simp_all add: py_isdigit_def)

lemma sanitize_name_spec: "sanitize_name name = spec_sanitize name"
proof (cases name)
  case Nil
  then show ?thesis by (simp add: sanitize_name_def spec_sanitize_def)
next
  case (Cons c cs)
  show ?thesis
  proof (cases "re_word_char c")
    case True
    then show ?thesis
      using Cons word_digit[OF True]
      by (simp add: sanitize_name_def spec_sanitize_def Let_def del: set_simps)
  next
    case False
    then show ?thesis
      using Cons not_digit_us
      by (simp add: sanitize_name_def spec_sanitize_def Let_def del: set_simps)
  qed
qed

lemma counts_of_step:
  assumes "counts_of seen cs"
  shows "counts_of (seen @ [b]) (AList.update b (case map_of cs b of Some c \<Rightarrow> c + 1 | None \<Rightarrow> 0) cs)"
  using assms unfolding counts_of_def
  by (auto simp: update_conv' count_list_0_iff split: option.splits)

lemma count_pos: "b \<in> set seen \<Longrightarrow> count_list seen b > 0"
  using count_list_0_iff[of seen b] by auto

lemma resolve_loop_names:
  "counts_of seen cs \<Longrightarrow>
   map_of (resolve_loop ws cs rs) =
     map_of rs ++ map_of (rev (zip (map widget_id ws) (names_from seen (map widget_base ws))))"
proof (induction ws arbitrary: seen cs rs)
  case Nil
  then show ?case by simp
next
  case (Cons w ws)
  let ?b = "widget_base w"
  have step: "counts_of (seen @ [?b]) (AList.update ?b (case map_of cs ?b of Some c \<Rightarrow> c + 1 | None \<Rightarrow> 0) cs)"
    by (rule counts_of_step[OF Cons.prems])
  show ?case
  proof (cases "map_of cs ?b")
    case None
    then have "?b \<notin> set seen" using Cons.prems by (auto simp: counts_of_def split: if_splits)
    then have c0: "count_list seen ?b = 0" by (simp add: count_list_0_iff)
    from step None have inv: "counts_of (seen @ [?b]) (AList.update ?b 0 cs)" by simp
    show ?thesis
      using None c0 Cons.IH[OF inv]
      by (simp add: widget_base_def[symmetric] Let_def update_conv' map_add_def fun_eq_iff split: option.splits)
  next
    case (Some c)
    then have mem: "?b \<in> set seen" and c: "c = int (count_list seen ?b) - 1"
      using Cons.prems by (auto simp: counts_of_def split: if_splits)
    have pos: "count_list seen ?b > 0" using mem by (rule count_pos)
    have str: "str_of_int (c + 1) = str_of_nat (count_list seen ?b)"
      using c pos by (simp add: str_of_int_def)
    from step Some have inv: "counts_of (seen @ [?b]) (AList.update ?b (c + 1) cs)" by simp
    show ?thesis
      using Some pos str Cons.IH[OF inv]
      by (simp add: widget_base_def[symmetric] Let_def update_conv' map_add_def fun_eq_iff split: option.splits)
  qed
qed

lemma names_from_length: "length (names_from seen bs) = length bs"
  by (induction bs arbitrary: seen) auto

lemma names_from_nth:
  "i < length bs \<Longrightarrow>
   names_from seen bs ! i =
     (let b = bs ! i; k = count_list (seen @ take i bs) b
      in if k = 0 then b else b @ ''_'' @ str_of_nat k)"
proof (induction bs arbitrary: seen i)
  case Nil
  then show ?case by simp
next
  case (Cons b bs)
  show ?case
  proof (cases i)
    case 0
    then show ?thesis by (simp add: Let_def)
  next
    case (Suc j)
    then have "j < length bs" using Cons.prems by simp
    from Cons.IH[OF this, of "seen @ [b]"] Suc show ?thesis by (simp add: Let_def)
  qed
qed

lemma map_of_rev_zip_last:
  assumes "i < length ks" "length vs = length ks"
    and "\<forall>j. i < j \<and> j < length ks \<longrightarrow> ks ! j \<noteq> ks ! i"
  shows "map_of (rev (zip ks vs)) (ks ! i) = Some (vs ! i)"
  using assms
proof (induction ks arbitrary: vs i)
  case Nil
  then show ?case by simp
next
  case (Cons k ks)
  then obtain v vs' where vs: "vs = v # vs'" by (cases vs) auto
  show ?case
  proof (cases i)
    case 0
    have "k \<notin> set ks"
    proof
      assume "k \<in> set ks"
      then obtain j where "j < length ks" "ks ! j = k" by (auto simp: in_set_conv_nth)
      then show False using Cons.prems(3) 0 by (auto dest: spec[of _ "Suc j"])
    qed
    then have "map_of (rev (zip ks vs')) k = None"
      by (auto simp: map_of_eq_None_iff dest: set_zip_leftD)
    then show ?thesis using 0 vs by (simp add: map_add_def)
  next
    case (Suc j)
    have a: "j < length ks" using Suc Cons.prems by simp
    have b: "length vs' = length ks" using vs Cons.prems by simp
    have c: "\<forall>l. j < l \<and> l < length ks \<longrightarrow> ks ! l \<noteq> ks ! j"
      using Cons.prems(3) Suc by (auto dest: spec[of _ "Suc l" for l])
    from Cons.IH[OF a b c] show ?thesis using Suc vs by (simp add: map_add_def)
  qed
qed


text \<open>
  Claim C1 (the resolved names are pairwise different for different widget ids), at the
  declared names \<^verbatim>\<open>btn\<close>, \<^verbatim>\<open>btn\<close>, \<^verbatim>\<open>btn_1\<close>: the second widget gets the suffixed name
  \<^verbatim>\<open>btn_1\<close>, and the third widget, the first with the base \<^verbatim>\<open>btn_1\<close>, keeps that base, so
  the ids \<^verbatim>\<open>widget_2\<close> and \<^verbatim>\<open>widget_3\<close> share one variable name.  The method's docstring
  promises uniqueness.
\<close>

theorem resolve_variable_names_collision:
  "resolve_variable_names
     [named_widget ''widget_1'' ''btn'', named_widget ''widget_2'' ''btn'',
      named_widget ''widget_3'' ''btn_1'']
   = [(''widget_1'', ''btn''), (''widget_2'', ''btn_1''), (''widget_3'', ''btn_1'')]"
  by code_simp

text \<open>
  Claim C2 as stated ends with an example: the declared names \<^verbatim>\<open>My Btn!\<close>, \<^verbatim>\<open>My_Btn\<close>,
  \<^verbatim>\<open>other\<close> resolve to \<^verbatim>\<open>My_Btn\<close>, \<^verbatim>\<open>My_Btn_1\<close>, \<^verbatim>\<open>other\<close>.  The code replaces the
  exclamation mark by an underscore as well, so the first base is \<^verbatim>\<open>My_Btn_\<close>, the second
  widget is the first with the base \<^verbatim>\<open>My_Btn\<close>, and no suffix is given.
\<close>

theorem resolve_example_counterexample:
  "map snd (resolve_variable_names
     [named_widget ''widget_1'' ''My Btn!'', named_widget ''widget_2'' ''My_Btn'',
      named_widget ''widget_3'' ''other''])
   \<noteq> [''My_Btn'', ''My_Btn_1'', ''other'']"
  by code_simp

text \<open>
  Claim C2, amended in its example only.  \<^verbatim>\<open>sanitize_name\<close> is the sanitization of the
  specification; for every widget that is the last one with its id, the resolved name is
  the name the specification's numbering gives its position (the base for a first
  occurrence, \<^verbatim>\<open>base_k\<close> for the occurrence with \<open>k\<close> earlier ones); and the declared names
  \<^verbatim>\<open>My Btn!\<close>, \<^verbatim>\<open>My_Btn\<close>, \<^verbatim>\<open>other\<close> resolve to \<^verbatim>\<open>My_Btn_\<close>, \<^verbatim>\<open>My_Btn\<close>, \<^verbatim>\<open>other\<close>.
\<close>

theorem resolve_variable_names_refines_spec:
  "sanitize_name n = spec_sanitize n \<and>
   (\<forall>i < length ws.
      (\<forall>j. i < j \<and> j < length ws \<longrightarrow> widget_id (ws ! j) \<noteq> widget_id (ws ! i)) \<longrightarrow>
      map_of (resolve_variable_names ws) (widget_id (ws ! i)) =
        Some (spec_name_at (map (\<lambda>w. spec_sanitize (declared_name (widget_properties w))) ws) i)) \<and>
   resolve_variable_names
     [named_widget ''widget_1'' ''My Btn!'', named_widget ''widget_2'' ''My_Btn'',
      named_widget ''widget_3'' ''other'']
   = [(''widget_1'', ''My_Btn_''), (''widget_2'', ''My_Btn''), (''widget_3'', ''other'')]"
proof (intro conjI allI impI)
  show "sanitize_name n = spec_sanitize n"
    by (rule sanitize_name_spec)
next
  fix i
  assume i: "i < length ws"
    and last: "\<forall>j. i < j \<and> j < length ws \<longrightarrow> widget_id (ws ! j) \<noteq> widget_id (ws ! i)"
  let ?ids = "map widget_id ws" and ?bases = "map widget_base ws"
  have inv: "counts_of [] []"
    by (simp add: counts_of_def)
  have "map_of (resolve_variable_names ws) = map_of (rev (zip ?ids (names_from [] ?bases)))"
    unfolding resolve_variable_names_def using resolve_loop_names[OF inv, of ws "[]"] by simp
  moreover have "map_of (rev (zip ?ids (names_from [] ?bases))) (?ids ! i)
      = Some (names_from [] ?bases ! i)"
    using i last by (intro map_of_rev_zip_last) (simp_all add: names_from_length)
  moreover have "names_from [] ?bases ! i = spec_name_at ?bases i"
    using i names_from_nth[of i ?bases "[]"] by (simp add: spec_name_at_def)
  moreover have "?bases = map (\<lambda>w. spec_sanitize (declared_name (widget_properties w))) ws"
    by (simp add: widget_base_def sanitize_name_spec)
  ultimately show "map_of (resolve_variable_names ws) (widget_id (ws ! i)) =
      Some (spec_name_at (map (\<lambda>w. spec_sanitize (declared_name (widget_properties w))) ws) i)"
    using i by simp
next
  show "resolve_variable_names
     [named_widget ''widget_1'' ''My Btn!'', named_widget ''widget_2'' ''My_Btn'',
      named_widget ''widget_3'' ''other'']
   = [(''widget_1'', ''My_Btn_''), (''widget_2'', ''My_Btn''), (''widget_3'', ''other'')]"
    by code_simp
qed

theorem resolve_variable_names_refines_spec_witness:
  "map_of (resolve_variable_names
      [named_widget ''widget_1'' ''Ok Btn'', named_widget ''widget_2'' ''Ok_Btn''])
     ''widget_2'' = Some ''Ok_Btn_1''"
proof -
  let ?ws = "[named_widget ''widget_1'' ''Ok Btn'', named_widget ''widget_2'' ''Ok_Btn'']"
  have ids: "widget_id (?ws ! 1) = ''widget_2''"
    by (simp add: named_widget_def widget_id_def)
  have name: "spec_name_at (map (\<lambda>w. spec_sanitize (declared_name (widget_properties w))) ?ws) 1
      = ''Ok_Btn_1''"
    by code_simp
  have "map_of (resolve_variable_names ?ws) (widget_id (?ws ! 1)) =
      Some (spec_name_at (map (\<lambda>w. spec_sanitize (declared_name (widget_properties w))) ?ws) 1)"
    by (rule resolve_variable_names_refines_spec[of "[]" ?ws, THEN conjunct2, THEN conjunct1,
          rule_format, of 1]) auto
  then show ?thesis
    unfolding ids name .
qed


section \<open>Theorems: decimal numbers and widget ids\<close>

lemma digit_char_props:
  assumes "k < 10"
  shows "is_dec (digit_char k)" and "dec_val (digit_char k) = k"
    and "digit_char k \<noteq> CHR ''_''" and "\<not> int_space (digit_char k)"
    and "digit_char k \<noteq> CHR ''-''" and "digit_char k \<noteq> CHR ''+''"
proof -
  from assms have "k \<in> {0,1,2,3,4,5,6,7,8,9}" by auto
  then show "is_dec (digit_char k)" and "dec_val (digit_char k) = k"
    and "digit_char k \<noteq> CHR ''_''" and "\<not> int_space (digit_char k)"
    and "digit_char k \<noteq> CHR ''-''" and "digit_char k \<noteq> CHR ''+''"
    by (auto simp: is_dec_def dec_val_def digit_char_def int_space_def)
qed

lemma py_digits_from_snoc:
  "\<forall>c\<in>set ds. is_dec c \<Longrightarrow> is_dec d \<Longrightarrow>
   py_digits_from acc (ds @ [d]) = map_option (\<lambda>v. 10 * v + dec_val d) (py_digits_from acc ds)"
  by (induction ds arbitrary: acc) auto

lemma str_of_nat_digits: "\<forall>c\<in>set (str_of_nat n). is_dec c"
proof (induction n rule: str_of_nat.induct)
  case (1 n)
  show ?case
  proof (cases "n < 10")
    case True
    then show ?thesis by (subst str_of_nat.simps) (simp add: digit_char_props)
  next
    case False
    then show ?thesis using 1 by (subst str_of_nat.simps) (simp add: digit_char_props)
  qed
qed

lemma str_of_nat_nonempty: "str_of_nat n \<noteq> []"
  by (subst str_of_nat.simps) simp

lemma py_digits_snoc:
  "ds \<noteq> [] \<Longrightarrow> \<forall>c\<in>set ds. is_dec c \<Longrightarrow> is_dec d \<Longrightarrow>
   py_digits (ds @ [d]) = map_option (\<lambda>v. 10 * v + dec_val d) (py_digits ds)"
  by (cases ds) (auto simp: py_digits_def py_digits_from_snoc)

lemma py_digits_str_of_nat: "py_digits (str_of_nat n) = Some n"
proof (induction n rule: str_of_nat.induct)
  case (1 n)
  show ?case
  proof (cases "n < 10")
    case True
    then show ?thesis
      by (subst str_of_nat.simps) (simp add: py_digits_def digit_char_props)
  next
    case False
    then have "py_digits (str_of_nat (n div 10)) = Some (n div 10)" using 1 by simp
    then show ?thesis
      using False
      by (subst str_of_nat.simps)
         (simp add: py_digits_snoc str_of_nat_nonempty str_of_nat_digits digit_char_props)
  qed
qed

lemma is_dec_facts: "is_dec c \<Longrightarrow> \<not> int_space c \<and> c \<noteq> CHR ''_'' \<and> c \<noteq> CHR ''-'' \<and> c \<noteq> CHR ''+''"
  by (auto simp: is_dec_def int_space_def)

lemma strip_digits:
  assumes "ds \<noteq> []" "\<forall>c\<in>set ds. \<not> int_space c"
  shows "rev (dropWhile int_space (rev (dropWhile int_space ds))) = ds"
proof -
  from assms have a: "dropWhile int_space ds = ds" by (cases ds) auto
  from assms have "rev ds \<noteq> []" "\<forall>c\<in>set (rev ds). \<not> int_space c" by auto
  then have "dropWhile int_space (rev ds) = rev ds" by (cases "rev ds") auto
  with a show ?thesis by simp
qed

lemma py_int_str_of_nat: "py_int (str_of_nat n) = Some (int n)"
proof -
  obtain c cs where s: "str_of_nat n = c # cs" using str_of_nat_nonempty[of n] by (cases "str_of_nat n") auto
  have d: "\<forall>c\<in>set (str_of_nat n). \<not> int_space c" using str_of_nat_digits is_dec_facts by blast
  have c: "c \<noteq> CHR ''-''" "c \<noteq> CHR ''+''" using str_of_nat_digits[of n] s is_dec_facts[of c] by auto
  have "rev (dropWhile int_space (rev (dropWhile int_space (str_of_nat n)))) = str_of_nat n"
    by (rule strip_digits[OF str_of_nat_nonempty d])
  then show ?thesis
    using s c py_digits_str_of_nat[of n] by (simp add: py_int_def)
qed

lemma py_int_str_of_int: "py_int (str_of_int i) = Some i"
proof (cases "i < 0")
  case False
  then show ?thesis by (simp add: str_of_int_def py_int_str_of_nat)
next
  case True
  let ?ds = "str_of_nat (nat (- i))"
  have ne: "CHR ''-'' # ?ds \<noteq> []" by simp
  have sp: "\<forall>c\<in>set (CHR ''-'' # ?ds). \<not> int_space c"
    using str_of_nat_digits is_dec_facts by (auto simp: int_space_def)
  have "rev (dropWhile int_space (rev (dropWhile int_space (CHR ''-'' # ?ds)))) = CHR ''-'' # ?ds"
    by (rule strip_digits[OF ne sp])
  then show ?thesis
    using True py_digits_str_of_nat[of "nat (- i)"] by (simp add: str_of_int_def py_int_def)
qed

lemma str_of_int_no_underscore: "CHR ''_'' \<notin> set (str_of_int i)"
  using str_of_nat_digits is_dec_facts by (auto simp: str_of_int_def)

lemma last_segment_append:
  "CHR ''_'' \<notin> set t \<Longrightarrow> last_segment (p @ CHR ''_'' # t) = t"
proof -
  assume "CHR ''_'' \<notin> set t"
  then have "takeWhile (\<lambda>c. c \<noteq> CHR ''_'') (rev t @ CHR ''_'' # rev p) = rev t"
    by (subst takeWhile_append2) auto
  then show ?thesis by (simp add: last_segment_def)
qed

lemma id_number_widget_id_of: "id_number (widget_id_of n) = Some n"
proof -
  have "widget_id_of n = ''widget'' @ CHR ''_'' # str_of_int n" by (simp add: widget_id_of_def)
  then show ?thesis
    unfolding id_number_def
    by (simp only: last_segment_append[OF str_of_int_no_underscore] py_int_str_of_int)
qed

lemma startswith_widget_id_of: "startswith (widget_id_of n) ''widget_''"
  by (simp add: startswith_def widget_id_of_def)


section \<open>Theorems: the state manager\<close>

lemma key_of_str [simp]: "key_of k' = PStr k \<longleftrightarrow> k' = PStr k"
  by (cases k') auto

lemma py_dict_set_str: "py_dict_set (PStr k) v d = AList.update (PStr k) v d"
  by (induction d) auto

lemma save_state_counter [simp]: "widget_counter (save_state s) = widget_counter s"
  by (simp add: save_state_def)

lemma add_widget_counter: "widget_counter (snd (add_widget wd s)) = widget_counter s + 1"
  by (simp add: add_widget_def Let_def split: sum.splits)

lemma add_widget_id: "fst (add_widget wd s) = Inr i \<Longrightarrow> i = widget_id_of (widget_counter s + 1)"
  by (auto simp: add_widget_def Let_def widget_id_of_def split: sum.splits if_splits)

lemma remove_widget_counter: "widget_counter (snd (remove_widget wid s)) = widget_counter s"
  by (simp add: remove_widget_def Let_def split: option.splits)

lemma run_ops_issued:
  "run_ops ops s = (ids, s') \<Longrightarrow>
   \<exists>ns. ids = map widget_id_of ns \<and> sorted_wrt (<) ns \<and>
        (\<forall>n\<in>set ns. widget_counter s < n \<and> n \<le> widget_counter s') \<and>
        widget_counter s \<le> widget_counter s'"
proof (induction ops arbitrary: s ids s')
  case Nil
  then show ?case by simp
next
  case (Cons op ops)
  show ?case
  proof (cases op)
    case (Remove wid)
    let ?s1 = "snd (remove_widget wid s)"
    from Cons.prems Remove have "run_ops ops ?s1 = (ids, s')" by simp
    from Cons.IH[OF this] show ?thesis by (simp add: remove_widget_counter)
  next
    case (Add wd)
    obtain r s1 where a: "add_widget wd s = (r, s1)" by (cases "add_widget wd s")
    have c1: "widget_counter s1 = widget_counter s + 1"
      using add_widget_counter[of wd s] a by simp
    show ?thesis
    proof (cases r)
      case (Inl e)
      with Cons.prems Add a have "run_ops ops s1 = (ids, s')" by simp
      from Cons.IH[OF this] obtain ns where "ids = map widget_id_of ns" "sorted_wrt (<) ns"
        "\<forall>n\<in>set ns. widget_counter s1 < n \<and> n \<le> widget_counter s'"
        "widget_counter s1 \<le> widget_counter s'"
        by blast
      then show ?thesis using c1 by (intro exI[of _ ns]) auto
    next
      case (Inr i)
      obtain ids1 where r: "run_ops ops s1 = (ids1, s')" and ids: "ids = i # ids1"
        using Cons.prems Add a Inr by (auto split: prod.splits)
      have i: "i = widget_id_of (widget_counter s + 1)"
        using add_widget_id[of wd s i] a Inr by simp
      from Cons.IH[OF r] obtain ns where ns: "ids1 = map widget_id_of ns" "sorted_wrt (<) ns"
        "\<forall>n\<in>set ns. widget_counter s1 < n \<and> n \<le> widget_counter s'"
        "widget_counter s1 \<le> widget_counter s'"
        by blast
      show ?thesis
        using ns ids i c1 by (intro exI[of _ "(widget_counter s + 1) # ns"]) auto
    qed
  qed
qed

lemma remove_absent:
  "\<not> has_key (PStr wid) (widgets s) \<Longrightarrow> remove_widget wid s = (Inr False, s)"
  by (simp add: remove_widget_def has_key_def map_of_eq_None_iff[THEN iffD2] split: option.splits)

lemma has_key_map_of: "has_key k d \<longleftrightarrow> map_of d k \<noteq> None"
  by (simp add: has_key_def map_of_eq_None_iff)









lemma save_initial_state_counter [simp]: "widget_counter (save_initial_state s) = widget_counter s"
  by (simp add: save_initial_state_def)





lemma load_project_data_widgets:
  assumes "map_of doc (PStr ''widgets'') = Some ws"
    and "load_widget_list ws (s\<lparr>project_data := PDict doc, shared_widgets := [], widgets := []\<rparr>)
       = (None, s1)"
  shows "snd (load_project_data (PDict doc) s) = snd (load_settings (PDict doc) s1)"
proof -
  have hk: "has_key (PStr ''widgets'') doc" using assms(1) by (simp add: has_key_map_of)
  show ?thesis
    using assms hk
    by (simp add: load_project_data_def Let_def split: prod.splits option.splits)
qed



lemma default_property_dict:
  "default_property key (Inr v) (PDict d) =
     Inr (PDict (if has_key (PStr key) d then d else AList.update (PStr key) v d))"
  by (simp add: default_property_def py_dict_set_str)

lemma add_widget_returns:
  assumes "map_of wd (PStr ''type'') = Some (PStr t)"
    and "\<forall>p. map_of wd (PStr ''properties'') = Some p \<longrightarrow> (\<exists>d. p = PDict d)"
  shows "fst (add_widget wd s) = Inr (widget_id_of (widget_counter s + 1))"
proof -
  let ?c = "widget_counter s + 1"
  let ?wd1 = "AList.update (PStr ''id'') (PStr (''widget_'' @ str_of_int ?c)) wd"
  obtain d where d: "(case map_of ?wd1 (PStr ''properties'') of None \<Rightarrow> PDict [] | Some p \<Rightarrow> p) = PDict d"
    using assms(2) by (cases "map_of wd (PStr ''properties'')") (auto simp: update_conv')
  let ?wd2 = "AList.update (PStr ''properties'') (PDict d) ?wd1"
  have ty: "map_of ?wd2 (PStr ''type'') = Some (PStr t)"
    using assms(1) by (simp add: update_conv')
  then have dn: "default_name ?wd2 ?c = Inr (PStr (py_lower t @ ''_'' @ str_of_int ?c))"
    by (simp add: default_name_def)
  obtain p where p: "default_properties ?wd2 ?c (PDict d) = Inr (PDict p)"
    unfolding default_properties_def dn by (simp add: default_property_dict)
  have "has_key (PStr ''type'') (AList.update (PStr ''properties'') (PDict p) ?wd2)"
    using ty by (simp add: has_key_map_of update_conv')
  then show ?thesis
    using d p by (simp add: add_widget_def Let_def widget_id_of_def)
qed

lemma init_widgets:
  "widgets initial_state_manager = []" "widget_counter initial_state_manager = 0"
  "shared_widgets initial_state_manager = []"
  by (simp_all add: initial_state_manager_def new_project_def save_initial_state_def)

lemma save_state_fields [simp]:
  "widgets (save_state s) = widgets s"
  "shared_widgets (save_state s) = shared_widgets s"
  "selected_widget_id (save_state s) = selected_widget_id s"
  "project_data (save_state s) = project_data s"
  by (simp_all add: save_state_def)

lemma str1: "str_of_int 1 = ''1''"
  by (simp add: str_of_int_def str_of_nat.simps digit_char_def)

lemma ex_widgets: "widgets (snd (add_widget example_button initial_state_manager)) =
  [(PStr ''widget_1'', [(PStr ''type'', PStr ''Button''),
      (PStr ''properties'', PDict
         [(PStr ''name'', PStr ''ok''),
          (PStr ''colors'', PDict
             [(PStr ''background'', PStr ''#FFFFFF''), (PStr ''foreground'', PStr ''#000000''),
              (PStr ''border'', PStr ''#CCCCCC'')]),
          (PStr ''geometry'', PList [PInt 100, PInt 100, PInt 200, PInt 100]),
          (PStr ''layer'', PInt 2)]),
      (PStr ''id'', PStr ''widget_1'')])]"
  by (simp add: add_widget_def Let_def init_widgets str1 example_button_def default_properties_def
       default_property_def default_name_def has_key_def)

lemma ex_shared: "shared_widgets (snd (add_widget example_button initial_state_manager)) = []"
  by (simp add: add_widget_def Let_def init_widgets split: sum.splits)

lemma suffix_numbers:
  "id_number ''widget_1'' = Some 1" "id_number ''widget_3'' = Some 3"
  "id_number ''widget_7'' = Some 7" "id_number ''widget_x'' = None"
  by (simp_all add: id_number_def last_segment_def py_int_def py_digits_def int_space_def
        is_dec_def dec_val_def)

text \<open>
  Two computations on the definitions above.  \<^verbatim>\<open>dict.update\<close> with a list assigns its
  pairs up to the element that is no pair.  A widget that \<^verbatim>\<open>load_project_data\<close> has
  stored is the object in the list of \<open>project_data\<close>, so \<^verbatim>\<open>update_widget\<close> changes it
  there as well.
\<close>

lemma dict_update_any_pairs:
  "dict_update_any [(PStr ''a'', PInt 0)] (PList [PList [PStr ''x'', PInt 1], PInt 5]) =
     (Some TypeError, [(PStr ''a'', PInt 0), (PStr ''x'', PInt 1)])"
  by (simp add: dict_update_any_def)

lemma example_document_loaded:
  "project_data (snd (load_project_data (PDict example_document) initial_state_manager))
     = PDict example_document"
  "widgets (snd (load_project_data (PDict example_document) initial_state_manager)) =
     [(PStr ''widget_3'', [(PStr ''id'', PStr ''widget_3''), (PStr ''type'', PStr ''Button'')]),
      (PStr ''widget_7'', [(PStr ''id'', PStr ''widget_7''), (PStr ''type'', PStr ''Label'')]),
      (PStr ''logo'', [(PStr ''id'', PStr ''logo''), (PStr ''type'', PStr ''Label'')])]"
  "shared_widgets (snd (load_project_data (PDict example_document) initial_state_manager)) =
     [(PStr ''widget_3'', 0), (PStr ''widget_7'', 1), (PStr ''logo'', 2)]"
proof -
  have n: "id_numbers [PStr ''widget_3'', PStr ''widget_7'', PStr ''logo''] = Inr [3, 7]"
    using suffix_numbers by (simp add: startswith_def id_number_def)
  have l: "load_widget_list (PList example_widget_list) s =
      (None, s\<lparr>widgets :=
         [(PStr ''widget_3'', [(PStr ''id'', PStr ''widget_3''), (PStr ''type'', PStr ''Button'')]),
          (PStr ''widget_7'', [(PStr ''id'', PStr ''widget_7''), (PStr ''type'', PStr ''Label'')]),
          (PStr ''logo'', [(PStr ''id'', PStr ''logo''), (PStr ''type'', PStr ''Label'')])],
        shared_widgets := [(PStr ''widget_3'', 0), (PStr ''widget_7'', 1), (PStr ''logo'', 2)],
        widget_counter := 7\<rparr>)" for s
    by (simp add: load_widget_list_def example_widget_list_def n py_max_def Let_def
          del: id_numbers.simps)
  have fields: "project_data (snd (load_settings doc s)) = project_data s"
    "widgets (snd (load_settings doc s)) = widgets s"
    "shared_widgets (snd (load_settings doc s)) = shared_widgets s" for doc s
    by (simp_all add: load_settings_def save_initial_state_def Let_def
          split: prod.splits option.splits sum.splits)
  let ?s0 = "initial_state_manager\<lparr>project_data := PDict example_document,
      shared_widgets := [], widgets := []\<rparr>"
  have e: "snd (load_project_data (PDict example_document) initial_state_manager) =
      snd (load_settings (PDict example_document)
        (?s0\<lparr>widgets :=
             [(PStr ''widget_3'', [(PStr ''id'', PStr ''widget_3''), (PStr ''type'', PStr ''Button'')]),
              (PStr ''widget_7'', [(PStr ''id'', PStr ''widget_7''), (PStr ''type'', PStr ''Label'')]),
              (PStr ''logo'', [(PStr ''id'', PStr ''logo''), (PStr ''type'', PStr ''Label'')])],
           shared_widgets := [(PStr ''widget_3'', 0), (PStr ''widget_7'', 1), (PStr ''logo'', 2)],
           widget_counter := 7\<rparr>))"
    by (rule load_project_data_widgets[OF _ l[of ?s0]]) (simp add: example_document_def)
  show "project_data (snd (load_project_data (PDict example_document) initial_state_manager))
     = PDict example_document"
    unfolding e fields by simp
  show "widgets (snd (load_project_data (PDict example_document) initial_state_manager)) =
     [(PStr ''widget_3'', [(PStr ''id'', PStr ''widget_3''), (PStr ''type'', PStr ''Button'')]),
      (PStr ''widget_7'', [(PStr ''id'', PStr ''widget_7''), (PStr ''type'', PStr ''Label'')]),
      (PStr ''logo'', [(PStr ''id'', PStr ''logo''), (PStr ''type'', PStr ''Label'')])]"
    unfolding e fields by simp
  show "shared_widgets (snd (load_project_data (PDict example_document) initial_state_manager)) =
     [(PStr ''widget_3'', 0), (PStr ''widget_7'', 1), (PStr ''logo'', 2)]"
    unfolding e fields by simp
qed

lemma loaded_widget_shared:
  "project_data
     (snd (update_widget ''widget_7'' [(PStr ''locked'', PBool True)]
        (snd (load_project_data (PDict example_document) initial_state_manager)))) =
   PDict
     [(PStr ''name'', PStr ''Demo''), (PStr ''framework'', PStr ''Tkinter''),
      (PStr ''main_window'', PDict []),
      (PStr ''widgets'', PList
         [PDict [(PStr ''id'', PStr ''widget_3''), (PStr ''type'', PStr ''Button'')],
          PDict [(PStr ''id'', PStr ''widget_7''), (PStr ''type'', PStr ''Label''),
                 (PStr ''locked'', PBool True)],
          PDict [(PStr ''id'', PStr ''logo''), (PStr ''type'', PStr ''Label'')]]),
      (PStr ''widget_counter'', PInt 99)]"
  by (simp add: update_widget_def store_widget_def write_shared_def other_fields_def
        example_document_loaded)
     (simp add: example_document_def example_widget_list_def)


section \<open>Theorems: the claims about the state manager and the project manager\<close>

text \<open>
  Claim C10: for a widget id that is not in the widget map, \<^verbatim>\<open>remove_widget\<close> returns
  \<^verbatim>\<open>False\<close> and leaves the whole state as it was: the widget map, the counter, the
  selection and the undo stack (no snapshot is pushed).
\<close>

theorem remove_widget_absent_unchanged:
  assumes "\<not> has_key (PStr wid) (widgets s)"
  shows "remove_widget wid s = (Inr False, s)"
  using assms by (rule remove_absent)

theorem remove_widget_absent_unchanged_witness:
  "remove_widget ''widget_7'' initial_state_manager = (Inr False, initial_state_manager)"
  by (rule remove_widget_absent_unchanged) (simp add: init_widgets has_key_def)




text \<open>
  Claim C6: in every sequence of \<^verbatim>\<open>add_widget\<close> and \<^verbatim>\<open>remove_widget\<close> calls from a new
  project, the ids returned are \<^verbatim>\<open>widget_<n>\<close> with strictly increasing numbers \<open>n\<close>, each
  number is the numeric suffix read back from its id, no id is issued twice, and
  \<^verbatim>\<open>remove_widget\<close> leaves the counter as it is.
\<close>

theorem widget_ids_strictly_increase:
  assumes "run_ops ops (new_project s0) = (ids, s')"
  shows "(\<exists>ns. ids = map widget_id_of ns \<and> map id_number ids = map Some ns \<and>
            sorted_wrt (<) ns \<and> (\<forall>n\<in>set ns. 0 < n \<and> n \<le> widget_counter s')) \<and>
         distinct ids \<and>
         widget_counter (snd (remove_widget wid s)) = widget_counter s"
proof -
  have c0: "widget_counter (new_project s0) = 0"
    by (simp add: new_project_def)
  from run_ops_issued[OF assms] c0 obtain ns where ns: "ids = map widget_id_of ns"
    "sorted_wrt (<) ns" "\<forall>n\<in>set ns. 0 < n \<and> n \<le> widget_counter s'"
    by auto
  have nums: "map id_number ids = map Some ns"
    using ns(1) by (simp add: id_number_widget_id_of)
  have "distinct ns"
    using ns(2) by (simp add: strict_sorted_iff)
  then have "distinct (map id_number ids)"
    unfolding nums by (simp add: distinct_map)
  then have "distinct ids"
    by (simp add: distinct_map)
  with ns nums show ?thesis
    by (auto simp: remove_widget_counter)
qed

lemma run_ops_add_returns:
  assumes "fst (add_widget wd s) = Inr i"
  shows "fst (run_ops (Add wd # ops) s) = i # fst (run_ops ops (snd (add_widget wd s)))"
  using assms by (cases "add_widget wd s") (auto split: prod.splits)

lemma example_button_shape:
  "map_of example_button (PStr ''type'') = Some (PStr ''Button'')"
  "\<forall>p. map_of example_button (PStr ''properties'') = Some p \<longrightarrow> (\<exists>d. p = PDict d)"
  by (simp_all add: example_button_def)

theorem widget_ids_strictly_increase_witness:
  "fst (run_ops [Add example_button, Add example_button, Remove ''widget_1'', Add example_button]
          (new_project initial_state_manager)) = [''widget_1'', ''widget_2'', ''widget_3''] \<and>
   (\<exists>ns. [''widget_1'', ''widget_2'', ''widget_3''] = map widget_id_of ns \<and> sorted_wrt (<) ns)"
proof -
  let ?s0 = "new_project initial_state_manager"
  let ?ops = "[Add example_button, Add example_button, Remove ''widget_1'', Add example_button]"
  let ?s1 = "snd (add_widget example_button ?s0)"
  let ?s2 = "snd (add_widget example_button ?s1)"
  let ?s3 = "snd (remove_widget ''widget_1'' ?s2)"
  note ret = add_widget_returns[OF example_button_shape]
  have c: "widget_counter ?s0 = 0" "widget_counter ?s1 = 1" "widget_counter ?s2 = 2"
    "widget_counter ?s3 = 2"
    by (simp_all add: new_project_def add_widget_counter remove_widget_counter)
  have names: "widget_id_of 1 = ''widget_1''" "widget_id_of 2 = ''widget_2''"
    "widget_id_of 3 = ''widget_3''"
    by (simp_all add: widget_id_of_def str_of_int_def str_of_nat.simps digit_char_def)
  have r1: "fst (add_widget example_button ?s0) = Inr ''widget_1''"
    and r2: "fst (add_widget example_button ?s1) = Inr ''widget_2''"
    and r3: "fst (add_widget example_button ?s3) = Inr ''widget_3''"
    using ret[of ?s0] ret[of ?s1] ret[of ?s3] by (simp_all add: c names)
  have "fst (run_ops [Add example_button] ?s3) = [''widget_3'']"
    by (simp only: run_ops_add_returns[OF r3] run_ops.simps(1) fst_conv)
  then have "fst (run_ops [Remove ''widget_1'', Add example_button] ?s2) = [''widget_3'']"
    by (simp only: run_ops.simps(3))
  then have "fst (run_ops [Add example_button, Remove ''widget_1'', Add example_button] ?s1)
      = [''widget_2'', ''widget_3'']"
    by (simp only: run_ops_add_returns[OF r2])
  then have ids: "fst (run_ops ?ops ?s0) = [''widget_1'', ''widget_2'', ''widget_3'']"
    by (simp only: run_ops_add_returns[OF r1])
  have "run_ops ?ops ?s0 = ([''widget_1'', ''widget_2'', ''widget_3''], snd (run_ops ?ops ?s0))"
    by (simp only: ids[symmetric] prod.collapse)
  from widget_ids_strictly_increase[OF this, THEN conjunct1]
  obtain ns where "[''widget_1'', ''widget_2'', ''widget_3''] = map widget_id_of ns"
    and "sorted_wrt (<) ns"
    by (elim exE conjE)
  then have "\<exists>ns. [''widget_1'', ''widget_2'', ''widget_3''] = map widget_id_of ns \<and> sorted_wrt (<) ns"
    by (intro exI[of _ ns] conjI)
  with ids show ?thesis by (rule conjI)
qed






text \<open>
  Claim C5 (a partial update that sets one field of a nested group keeps the sibling
  fields of that group), at the update
  \<^verbatim>\<open>{"properties": {"colors": {"background": "#123456"}}}\<close>: the button loses the
  \<^verbatim>\<open>foreground\<close> of its \<^verbatim>\<open>colors\<close>, and the main window of a new project loses the
  \<^verbatim>\<open>text\<close> colour.  The comment in \<^verbatim>\<open>update_widget\<close> announces a deep update of the
  properties; the \<^verbatim>\<open>dict.update\<close> under it replaces the group.
\<close>

theorem update_replaces_nested_group:
  "group_field (widget_property (snd (add_widget example_button initial_state_manager))
       ''widget_1'' ''colors'') ''foreground'' = Some (PStr ''#000000'') \<and>
   fst (update_widget ''widget_1'' background_update
          (snd (add_widget example_button initial_state_manager))) = Inr () \<and>
   widget_property
       (snd (update_widget ''widget_1'' background_update
          (snd (add_widget example_button initial_state_manager))))
       ''widget_1'' ''colors'' = Some (PDict [(PStr ''background'', PStr ''#123456'')]) \<and>
   group_field (widget_property
       (snd (update_widget ''widget_1'' background_update
          (snd (add_widget example_button initial_state_manager))))
       ''widget_1'' ''colors'') ''foreground'' = None \<and>
   group_field (window_property initial_state_manager ''colors'') ''text'' = Some (PStr ''#000000'') \<and>
   fst (update_main_window background_update initial_state_manager) = Inr () \<and>
   group_field (window_property (snd (update_main_window background_update initial_state_manager))
       ''colors'') ''text'' = None"
proof -
  let ?s = "snd (add_widget example_button initial_state_manager)"
  let ?w = "[(PStr ''type'', PStr ''Button''),
      (PStr ''properties'', PDict
         [(PStr ''name'', PStr ''ok''),
          (PStr ''colors'', PDict [(PStr ''background'', PStr ''#123456'')]),
          (PStr ''geometry'', PList [PInt 100, PInt 100, PInt 200, PInt 100]),
          (PStr ''layer'', PInt 2)]),
      (PStr ''id'', PStr ''widget_1'')]"
  have u: "update_widget ''widget_1'' background_update ?s = (Inr (), store_widget ''widget_1'' ?w ?s)"
    by (simp add: update_widget_def ex_widgets background_update_def other_fields_def
          dict_update_any_def)
  have sw: "widgets (store_widget ''widget_1'' ?w ?s) = [(PStr ''widget_1'', ?w)]"
    by (simp add: store_widget_def ex_widgets)
  have mw: "update_main_window background_update initial_state_manager =
      (Inr (), initial_state_manager\<lparr>project_data := PDict
            [(PStr ''name'', PStr ''New Project''),
             (PStr ''framework'', PStr ''PyQt6''),
             (PStr ''version'', PStr ''1.0''),
             (PStr ''main_window'', PDict
                [(PStr ''id'', PStr ''main_window''),
                 (PStr ''type'', PStr ''MainWindow''),
                 (PStr ''properties'', PDict
                    [(PStr ''title'', PStr ''My Application''),
                     (PStr ''geometry'', PList [PInt 100, PInt 100, PInt 800, PInt 600]),
                     (PStr ''resizable'', PBool True),
                     (PStr ''colors'', PDict [(PStr ''background'', PStr ''#123456'')])])]),
             (PStr ''widgets'', PDict []),
             (PStr ''canvas_settings'', PDict (canvas_settings initial_state_manager)),
             (PStr ''layer_config'', PDict (layer_config initial_state_manager))]\<rparr>)"
    by (simp add: initial_state_manager_def new_project_def save_initial_state_def
          update_main_window_def update_window_value_def background_update_def other_fields_def
          has_key_def dict_update_any_def)
  show ?thesis
    unfolding u mw
    by (simp add: widget_property_def window_property_def group_field_def sw ex_widgets)
       (simp add: initial_state_manager_def new_project_def save_initial_state_def)
qed


section \<open>Theorems: the generators\<close>

lemma add_used_classes_set:
  "set (add_used_classes order wc) = set wc \<union> used_classes order"
proof (induction order arbitrary: wc)
  case Nil
  then show ?case by (simp add: used_classes_def)
next
  case (Cons t ts)
  have "used_classes (t # ts) =
      (case t of None \<Rightarrow> {} | Some ty \<Rightarrow>
         (case map_of pyqt6_class_map ty of None \<Rightarrow> {} | Some c \<Rightarrow> if c \<noteq> [] then {c} else {}))
      \<union> used_classes ts"
    by (auto simp: used_classes_def split: option.splits if_splits)
  then show ?case
    using Cons.IH by (auto split: option.splits if_splits)
qed

lemma add_used_classes_distinct:
  "distinct wc \<Longrightarrow> distinct (add_used_classes order wc)"
  by (induction order arbitrary: wc) (auto split: option.splits)

lemma fold_insert_set: "set (fold List.insert xs ys) = set xs \<union> set ys"
  by (induction xs arbitrary: ys) auto

lemma fold_insert_distinct: "distinct ys \<Longrightarrow> distinct (fold List.insert xs ys)"
  by (induction xs arbitrary: ys) auto

lemma sort_distinct_set:
  fixes xs ys :: "string list"
  assumes "distinct xs" "distinct ys" "set xs = set ys"
  shows "sort xs = sort ys"
proof -
  have "sort xs = sorted_list_of_set (set xs)"
    using assms(1) by (simp add: sorted_list_of_set_sort_remdups distinct_remdups_id)
  moreover have "sort ys = sorted_list_of_set (set ys)"
    using assms(2) by (simp add: sorted_list_of_set_sort_remdups distinct_remdups_id)
  ultimately show ?thesis using assms(3) by simp
qed

lemma generate_imports_pyqt6_order:
  assumes "set order1 = set order2"
  shows "generate_imports_pyqt6 order1 = generate_imports_pyqt6 order2"
proof -
  let ?init = "[''QApplication'', ''QMainWindow'', ''QWidget'']"
  let ?lay = "[''QVBoxLayout'', ''QHBoxLayout'', ''QGridLayout'']"
  let ?c = "\<lambda>order. fold List.insert ?lay (add_used_classes order ?init)"
  have d: "distinct ?init" by simp
  have u: "used_classes order1 = used_classes order2"
    using assms by (simp add: used_classes_def)
  have "sort (?c order1) = sort (?c order2)"
  proof (rule sort_distinct_set)
    show "distinct (?c order1)" "distinct (?c order2)"
      by (intro fold_insert_distinct add_used_classes_distinct d)+
    show "set (?c order1) = set (?c order2)"
      unfolding fold_insert_set add_used_classes_set u ..
  qed
  then show ?thesis
    unfolding generate_imports_pyqt6_def Let_def by simp
qed

lemma get_or_simps [simp]: "get_or d None = d" "get_or d (Some v) = v"
  by (simp_all add: get_or_def)

lemma length4: "length (xs :: 'a list) = 4 \<Longrightarrow> xs = [xs ! 0, xs ! 1, xs ! 2, xs ! 3]"
  by (cases xs; cases "tl xs"; cases "tl (tl xs)"; cases "tl (tl (tl xs))"; cases "tl (tl (tl (tl xs)))") auto

lemma geometry_code_pyqt6_ok:
  "length g = 4 \<Longrightarrow>
   generate_geometry_code_pyqt6 g =
     Inr (str_of_int (g ! 0) @ '', '' @ str_of_int (g ! 1) @ '', '' @ str_of_int (g ! 2) @ '', ''
          @ str_of_int (g ! 3))"
  by (subst length4[of g], assumption) (simp add: generate_geometry_code_pyqt6_def)

lemma unknown_pyqt6_types:
  assumes "map_of pyqt6_class_map t = None"
  shows "t \<notin> set [''Button'', ''Label'', ''Checkbox'', ''RadioButton'', ''GroupBox'']"
    and "widget_specific_parts_pyqt6 t p v = []"
proof -
  have keys: "t \<notin> set (map fst pyqt6_class_map)"
    using assms by (simp add: map_of_eq_None_iff)
  then show "t \<notin> set [''Button'', ''Label'', ''Checkbox'', ''RadioButton'', ''GroupBox'']"
    by (auto simp: pyqt6_class_map_def)
  from keys have "t \<noteq> ''Entry''" "t \<noteq> ''Text''" "t \<noteq> ''Checkbox''" "t \<noteq> ''RadioButton''"
    "t \<noteq> ''ComboBox''" "t \<noteq> ''ListBox''" "t \<noteq> ''Slider''" "t \<noteq> ''ProgressBar''"
    "t \<noteq> ''SpinBox''" "t \<noteq> ''Tabs''"
    by (auto simp: pyqt6_class_map_def)
  then show "widget_specific_parts_pyqt6 t p v = []"
    by (simp add: widget_specific_parts_pyqt6_def)
qed

lemma unknown_tk_types:
  assumes "map_of tkinter_class_map t = None"
  shows "generate_widget_specific_options_tk t p = []"
    and "post_creation_parts_tk t p v = []"
proof -
  have keys: "t \<notin> set (map fst tkinter_class_map)"
    using assms by (simp add: map_of_eq_None_iff)
  then have ne: "t \<noteq> ''Entry''" "t \<noteq> ''Text''" "t \<noteq> ''Checkbox''" "t \<noteq> ''RadioButton''"
    "t \<noteq> ''ComboBox''" "t \<noteq> ''ListBox''" "t \<noteq> ''Slider''" "t \<noteq> ''ProgressBar''"
    "t \<noteq> ''SpinBox''" "t \<noteq> ''Tabs''" "t \<noteq> ''Button''"
    by (auto simp: tkinter_class_map_def)
  from ne show "generate_widget_specific_options_tk t p = []"
    by (simp add: generate_widget_specific_options_tk_def)
  from ne show "post_creation_parts_tk t p v = []"
    by (simp add: post_creation_parts_tk_def)
qed

lemma fallback_pyqt6:
  assumes "map_of pyqt6_class_map (widget_type w) = None" and "length (widget_geometry w) = 4"
  shows "generate_widget_code_pyqt6 w parent_var = Inr (fallback_code_pyqt6 w parent_var)"
  using assms unknown_pyqt6_types[OF assms(1)] geometry_code_pyqt6_ok[OF assms(2)]
  by (simp add: generate_widget_code_pyqt6_def fallback_code_pyqt6_def Let_def
        generate_widget_specific_code_pyqt6_def widget_geometry_def del: set_simps)

lemma fallback_tk:
  assumes "map_of tkinter_class_map (widget_type w) = None" and "length (widget_geometry w) = 4"
  shows "generate_widget_code_tk w parent_var = Inr (fallback_code_tk w parent_var)"
proof -
  obtain x y wd h where g: "get_or [0, 0, 100, 50] (p_geometry (widget_properties w)) = [x, y, wd, h]"
    using length4[OF assms(2)] unfolding widget_geometry_def by metis
  show ?thesis
    using assms(1) unknown_tk_types[OF assms(1)] g
    by (simp add: generate_widget_code_tk_def fallback_code_tk_def Let_def
          generate_widget_post_creation_code_tk_def widget_geometry_def)
qed

lemma widget_code_returns:
  assumes "length (widget_geometry w) = 4"
  shows "\<exists>code. generate_widget_code g w parent_var = Inr code"
proof (cases g)
  case PyQt6Generator
  then show ?thesis
    using geometry_code_pyqt6_ok[OF assms]
    by (simp add: generate_widget_code_pyqt6_def Let_def widget_geometry_def)
next
  case TkinterGenerator
  obtain x y wd h where g: "get_or [0, 0, 100, 50] (p_geometry (widget_properties w)) = [x, y, wd, h]"
    using length4[OF assms] unfolding widget_geometry_def by metis
  then show ?thesis
    using TkinterGenerator by (simp add: generate_widget_code_tk_def Let_def)
qed

lemma resolve_loop_keys:
  "fst ` set (resolve_loop ws cs rs) = fst ` set rs \<union> widget_id ` set ws"
  by (induction ws arbitrary: cs rs) (auto simp: Let_def dom_update split: option.splits)

lemma resolve_has_key:
  "w \<in> set ws \<Longrightarrow> has_key (widget_id w) (resolve_variable_names ws)"
  using resolve_loop_keys[of ws "[]" "[]"]
  by (auto simp: has_key_def resolve_variable_names_def)

lemma join_contains:
  "x \<in> set xs \<Longrightarrow> \<exists>before after. join sep xs = before @ x @ after"
proof (induction sep xs rule: join.induct)
  case (1 sep)
  then show ?case by simp
next
  case (2 sep y)
  then have "join sep [y] = [] @ x @ []" by simp
  then show ?case by blast
next
  case (3 sep y z zs)
  show ?case
  proof (cases "x = y")
    case True
    then have "join sep (y # z # zs) = [] @ x @ (sep @ join sep (z # zs))" by simp
    then show ?thesis by blast
  next
    case False
    with 3 obtain b a where "join sep (z # zs) = b @ x @ a" by auto
    then have "join sep (y # z # zs) = (y @ sep @ b) @ x @ a" by simp
    then show ?thesis by blast
  qed
qed

lemma widget_blocks_ok:
  assumes "\<forall>w\<in>set ws. has_key (widget_id w) vn \<and> (\<exists>code. gen w ''self'' = Inr code)"
  shows "\<exists>blocks. widget_blocks gen ws vn = Inr blocks \<and>
     (\<forall>w\<in>set ws. \<forall>code. gen w ''self'' = Inr code \<longrightarrow> format_code code 2 \<in> set blocks)"
  using assms
proof (induction ws)
  case Nil
  then show ?case by simp
next
  case (Cons w ws)
  then obtain code where c: "gen w ''self'' = Inr code" and k: "has_key (widget_id w) vn" by auto
  from Cons obtain blocks where b: "widget_blocks gen ws vn = Inr blocks"
    "\<forall>w\<in>set ws. \<forall>code. gen w ''self'' = Inr code \<longrightarrow> format_code code 2 \<in> set blocks"
    by auto
  show ?case using c k b by auto
qed

lemma regroup_blocks:
  "a @ b @ c @ blocks @ d @ e = (a @ b @ c) @ blocks @ (d @ e)"
  by simp

lemma main_file_contains_widgets:
  assumes "well_formed_geometry p"
  shows "\<exists>main_text. generate_main_file g order p = Inr main_text \<and>
     (\<forall>w\<in>set (project_widgets p).
        \<exists>code before after. generate_widget_code g w ''self'' = Inr code \<and>
          main_text = before @ format_code code 2 @ after)"
proof -
  let ?ws = "project_widgets p"
  let ?vn = "resolve_variable_names ?ws"
  let ?wp = "project_window_properties p"
  have wg: "\<forall>w\<in>set ?ws. length (widget_geometry w) = 4"
    and mg: "length (get_or [100, 100, 800, 600] (wp_geometry ?wp)) = 4"
    using assms by (auto simp: well_formed_geometry_def list_all_iff)
  have pre: "\<forall>w\<in>set ?ws. has_key (widget_id w) ?vn \<and> (\<exists>code. generate_widget_code g w ''self'' = Inr code)"
    using wg resolve_has_key widget_code_returns by blast
  from widget_blocks_ok[of ?ws ?vn "generate_widget_code g", OF pre] obtain blocks where
    b: "widget_blocks (generate_widget_code g) ?ws ?vn = Inr blocks"
    and inb: "\<forall>w\<in>set ?ws. \<forall>code. generate_widget_code g w ''self'' = Inr code \<longrightarrow>
        format_code code 2 \<in> set blocks"
    by blast
  have "\<exists>main_text head tail pre post. generate_main_file g order p = Inr main_text \<and>
      main_text = pre @ join [nl] (head @ blocks @ tail) @ post"
  proof (cases g)
    case PyQt6Generator
    with b have b': "widget_blocks generate_widget_code_pyqt6 ?ws ?vn = Inr blocks" by simp
    have "\<exists>head tail. generate_class_definition_pyqt6 (project_name_of p) ?wp ?ws ?vn =
        Inr (join [nl] (head @ blocks @ tail))"
      unfolding generate_class_definition_pyqt6_def Let_def b' geometry_code_pyqt6_ok[OF mg] sum.case
      by (rule exI, rule exI, rule refl)
    then obtain head tail where
      "generate_class_definition_pyqt6 (project_name_of p) ?wp ?ws ?vn =
        Inr (join [nl] (head @ blocks @ tail))" by blast
    then have "generate_main_file g order p =
        Inr (generate_imports_pyqt6 order @ [nl, nl, nl] @ join [nl] (head @ blocks @ tail)
             @ [nl, nl, nl] @ generate_main_function_pyqt6 (project_name_of p))"
      unfolding PyQt6Generator generate_main_file.simps generate_main_file_pyqt6_def Let_def
      by (simp only: sum.case)
    then have "generate_main_file g order p =
        Inr ((generate_imports_pyqt6 order @ [nl, nl, nl]) @ join [nl] (head @ blocks @ tail)
             @ ([nl, nl, nl] @ generate_main_function_pyqt6 (project_name_of p)))"
      by (simp only: append_assoc)
    then show ?thesis by blast
  next
    case TkinterGenerator
    with b have b': "widget_blocks generate_widget_code_tk ?ws ?vn = Inr blocks" by simp
    have nlt: "(length (get_or [100, 100, 800, 600] (wp_geometry ?wp)) < 4) = False"
      using mg by simp
    have "\<exists>head tail. generate_class_definition_tk (project_name_of p) ?wp ?ws ?vn =
        Inr (join [nl] (head @ blocks @ tail))"
      unfolding generate_class_definition_tk_def Let_def b' nlt if_False sum.case
      by (subst regroup_blocks, rule exI, rule exI, rule refl)
    then obtain head tail where
      "generate_class_definition_tk (project_name_of p) ?wp ?ws ?vn =
        Inr (join [nl] (head @ blocks @ tail))" by blast
    then have "generate_main_file g order p =
        Inr (generate_imports_tk p @ [nl, nl, nl] @ join [nl] (head @ blocks @ tail)
             @ [nl, nl, nl] @ generate_main_function_tk (project_name_of p))"
      unfolding TkinterGenerator generate_main_file.simps generate_main_file_tk_def Let_def
      by (simp only: sum.case)
    then have "generate_main_file g order p =
        Inr ((generate_imports_tk p @ [nl, nl, nl]) @ join [nl] (head @ blocks @ tail)
             @ ([nl, nl, nl] @ generate_main_function_tk (project_name_of p)))"
      by (simp only: append_assoc)
    then show ?thesis by blast
  qed
  then obtain main_text head tail pre' post where
    m: "generate_main_file g order p = Inr main_text"
    and t: "main_text = pre' @ join [nl] (head @ blocks @ tail) @ post"
    by blast
  have "\<exists>code before after. generate_widget_code g w ''self'' = Inr code \<and>
          main_text = before @ format_code code 2 @ after" if w: "w \<in> set ?ws" for w
  proof -
    from pre w obtain code where c: "generate_widget_code g w ''self'' = Inr code" by blast
    with inb w have "format_code code 2 \<in> set (head @ blocks @ tail)" by simp
    from join_contains[OF this, of "[nl]"] obtain b a where
      "join [nl] (head @ blocks @ tail) = b @ format_code code 2 @ a" by blast
    then have "main_text = (pre' @ b) @ format_code code 2 @ (a @ post)"
      using t by simp
    with c show ?thesis by blast
  qed
  with m show ?thesis by blast
qed

lemma example_project_widgets: "project_widgets example_project = [unsupported_widget, submit_button]"
  by (simp add: project_widgets_def example_project_def)

lemma example_project_well_formed: "well_formed_geometry example_project"
  by (simp add: well_formed_geometry_def example_project_widgets widget_geometry_def
        widget_properties_def unsupported_widget_def submit_button_def no_properties_def)
     (simp add: example_project_def project_window_properties_def)


section \<open>Theorems: the claims about the generators and the registry\<close>

text \<open>
  Claim C9: \<^verbatim>\<open>generate_project\<close> is a function of the project alone.  The only place
  where a generator could depend on more is the loop of the PyQt6 \<^verbatim>\<open>generate_imports\<close>
  over the set of used widget types; for any two orders in which Python may iterate over
  that set, both generators return the same output map, character for character.
\<close>

theorem generate_project_deterministic:
  assumes "iteration_order p order1" and "iteration_order p order2"
  shows "generate_project g order1 p = generate_project g order2 p"
proof (cases g)
  case TkinterGenerator
  then show ?thesis by (simp add: generate_project_def)
next
  case PyQt6Generator
  have "set order1 = set order2"
    using assms by (simp add: iteration_order_def)
  then have "generate_imports_pyqt6 order1 = generate_imports_pyqt6 order2"
    by (rule generate_imports_pyqt6_order)
  then show ?thesis
    using PyQt6Generator by (simp add: generate_project_def generate_main_file_pyqt6_def)
qed

theorem generate_project_deterministic_witness:
  "generate_project PyQt6Generator [Some ''Gauge'', Some ''Button''] example_project =
   generate_project PyQt6Generator [Some ''Button'', Some ''Gauge''] example_project"
  by (rule generate_project_deterministic)
     (auto simp: iteration_order_def used_widgets_def example_project_widgets
        unsupported_widget_def submit_button_def)

text \<open>
  Claim C3 as stated asks for a clearly marked placeholder or comment in the code of a
  widget whose type is not in the table.  For a widget of type \<^verbatim>\<open>Gauge\<close> both
  generators emit an ordinary construction of the generic class and its placement, and
  nothing that marks the widget as unsupported.
\<close>

theorem unsupported_widget_silent_fallback:
  "generate_widget_code PyQt6Generator unsupported_widget ''self'' =
     Inr ''self.g1 = QWidget(self.central_widget)\<newline>self.g1.setGeometry(0, 0, 100, 50)'' \<and>
   generate_widget_code TkinterGenerator unsupported_widget ''self'' =
     Inr ''self.g1 = tk.Widget(self.root)\<newline>self.g1.place(x=0, y=0, width=100, height=50)''"
  by code_simp

text \<open>
  Claim C3, amended: for every project whose geometries have four entries, whatever the
  types of its widgets, \<^verbatim>\<open>generate_project\<close> raises nothing and returns the map with
  \<^verbatim>\<open>main.py\<close> alone, and the main file holds the indented code of every widget of the
  project; for a widget whose type is not in the table of the generator, that code is
  the construction of the generic fallback class with the placement and the common
  property statements, without a placeholder or a comment.
\<close>

theorem unsupported_type_falls_back:
  "(well_formed_geometry p \<longrightarrow>
      (\<exists>main_text. generate_project g order p = Inr [(''main.py'', main_text)] \<and>
         (\<forall>w\<in>set (project_widgets p).
            \<exists>code before after. generate_widget_code g w ''self'' = Inr code \<and>
              main_text = before @ format_code code 2 @ after))) \<and>
   (map_of (widget_class_map g) (widget_type w) = None \<longrightarrow> length (widget_geometry w) = 4 \<longrightarrow>
      generate_widget_code g w parent_var = Inr (fallback_code g w parent_var))"
proof (intro conjI impI)
  assume "well_formed_geometry p"
  from main_file_contains_widgets[OF this, of g order]
  show "\<exists>main_text. generate_project g order p = Inr [(''main.py'', main_text)] \<and>
         (\<forall>w\<in>set (project_widgets p).
            \<exists>code before after. generate_widget_code g w ''self'' = Inr code \<and>
              main_text = before @ format_code code 2 @ after)"
    by (auto simp: generate_project_def get_file_extension_def generate_additional_files_def)
next
  assume "map_of (widget_class_map g) (widget_type w) = None" "length (widget_geometry w) = 4"
  then show "generate_widget_code g w parent_var = Inr (fallback_code g w parent_var)"
    by (cases g) (simp_all add: fallback_pyqt6 fallback_tk)
qed

theorem unsupported_type_falls_back_witness:
  "(\<exists>main_text. generate_project TkinterGenerator [] example_project = Inr [(''main.py'', main_text)]) \<and>
   generate_widget_code TkinterGenerator unsupported_widget ''self'' =
     Inr (fallback_code TkinterGenerator unsupported_widget ''self'')"
proof -
  note t = unsupported_type_falls_back[of example_project TkinterGenerator "[]" unsupported_widget "''self''"]
  have a: "map_of (widget_class_map TkinterGenerator) (widget_type unsupported_widget) = None"
    by (simp add: tkinter_class_map_def widget_type_def unsupported_widget_def)
  have b: "length (widget_geometry unsupported_widget) = 4"
    by (simp add: widget_geometry_def widget_properties_def unsupported_widget_def no_properties_def)
  from t[THEN conjunct1, rule_format, OF example_project_well_formed]
    t[THEN conjunct2, rule_format, OF a b]
  show ?thesis by blast
qed

text \<open>
  Claim C4 as stated says that the lookup of a framework key that is not in the registry
  signals an \<^verbatim>\<open>UnknownFrameworkError\<close>.  \<^verbatim>\<open>get_generator\<close> returns \<^verbatim>\<open>None\<close> and raises
  nothing.
\<close>

theorem get_generator_unknown_key:
  "get_generator default_registry ''Kivy'' = Inr None"
  by (simp add: get_generator_def default_registry_def register_generator_def)

text \<open>
  Claim C4, amended: for every framework key that is not in the registry,
  \<^verbatim>\<open>get_generator\<close> returns \<^verbatim>\<open>None\<close> without raising, and \<^verbatim>\<open>export_code\<close>, which
  checks the result before it opens the file dialog, returns \<^verbatim>\<open>False\<close> with nothing
  generated.
\<close>

theorem unknown_framework_not_exported:
  assumes "\<not> has_key name registry"
  shows "get_generator registry name = Inr None \<and>
     (target_framework s = PStr name \<longrightarrow>
        export_project_code registry generate export_dir package s = (False, None))"
proof -
  have "map_of registry name = None"
    using assms by (simp add: has_key_def map_of_eq_None_iff)
  then show ?thesis
    by (simp add: get_generator_def export_project_code_def split: sum.splits)
qed

theorem unknown_framework_not_exported_witness:
  "get_generator default_registry ''Kivy'' = Inr None \<and>
   export_project_code default_registry (\<lambda>g d. Inr [(''main.py'', ''pass'')]) (Some ''out.zip'')
     (\<lambda>files. True) (initial_state_manager\<lparr>target_framework := PStr ''Kivy''\<rparr>) = (False, None)"
proof -
  have "\<not> has_key ''Kivy'' default_registry"
    by (simp add: has_key_def default_registry_def register_generator_def)
  from unknown_framework_not_exported[OF this] show ?thesis by simp
qed

end
